theory Spec2Isabelle
  imports Main
begin

section \<open>JavaScript values, requests and responses\<close>

text \<open>
  The values of \<^verbatim>\<open>server.js\<close>: what \<^verbatim>\<open>bodyParser.json\<close> and
  \<^verbatim>\<open>bodyParser.urlencoded({ extended: true })\<close> put into the fields of \<^verbatim>\<open>req.body\<close>
  (strings, numbers, booleans, \<^verbatim>\<open>null\<close>, arrays, objects), \<^verbatim>\<open>undefined\<close> for a field
  that is not there, and the object literals that \<^verbatim>\<open>res.json\<close> is given. An object is
  the list of its fields in the order they are written. A number is an integer here:
  every function below treats a fractional number as it treats a non-zero integer.
\<close>

datatype jsval =
    Undefined
  | Null
  | Bool bool
  | Num int
  | Str string
  | Arr "jsval list"
  | Obj "(string \<times> jsval) list"

text \<open>\<^verbatim>\<open>!v\<close>: true of \<^verbatim>\<open>undefined\<close>, \<^verbatim>\<open>null\<close>, \<^verbatim>\<open>false\<close>, \<^verbatim>\<open>0\<close> and the empty string.\<close>

definition falsy_js :: "jsval \<Rightarrow> bool" where
  "falsy_js v =
     (case v of
        Undefined \<Rightarrow> True
      | Null \<Rightarrow> True
      | Bool b \<Rightarrow> \<not> b
      | Num n \<Rightarrow> n = 0
      | Str s \<Rightarrow> s = []
      | Arr vs \<Rightarrow> False
      | Obj fs \<Rightarrow> False)"

text \<open>
  A request header, and the token cut out of it, is either absent (\<^verbatim>\<open>undefined\<close>) or a
  string; \<^verbatim>\<open>!v\<close> on such a value is true exactly when it is absent or the empty
  string.
\<close>

definition falsy :: "string option \<Rightarrow> bool" where
  "falsy v = (case v of None \<Rightarrow> True | Some s \<Rightarrow> s = [])"

text \<open>A column read back from a row: NULL is \<^verbatim>\<open>null\<close>.\<close>

definition js_of_column :: "string option \<Rightarrow> jsval" where
  "js_of_column v = (case v of None \<Rightarrow> Null | Some s \<Rightarrow> Str s)"

record response =
  status :: nat
  json :: jsval

text \<open>\<^verbatim>\<open>res.status(code).json({ message: m })\<close>\<close>

definition json_message :: "nat \<Rightarrow> string \<Rightarrow> response" where
  "json_message code m = \<lparr>status = code, json = Obj [(''message'', Str m)]\<rparr>"

text \<open>
  The payload of a token: what \<^verbatim>\<open>jwt.sign\<close> is given (\<^verbatim>\<open>userId\<close>, a row id, and
  \<^verbatim>\<open>email\<close>, which at registration is the body's value as it came) and the two
  registered claims that jsonwebtoken adds, in seconds since the epoch. \<^verbatim>\<open>exp\<close> is
  optional in a token: one signed without \<^verbatim>\<open>expiresIn\<close> has none.
\<close>

record jwt_payload =
  userId :: nat
  email :: jsval
  iat :: nat
  exp :: "nat option"

text \<open>
  A request: its header table, \<^verbatim>\<open>req.body\<close> as the function that reads a field
  (\<open>Undefined\<close> for a field the client did not send), and \<^verbatim>\<open>req.user\<close>.
\<close>

record request =
  req_headers :: "string \<rightharpoonup> string"
  req_body :: "string \<Rightarrow> jsval"
  req_user :: "jwt_payload option"

section \<open>The libraries the server calls\<close>

text \<open>
  \<^verbatim>\<open>bcryptjs\<close>, \<^verbatim>\<open>jsonwebtoken\<close> and \<^verbatim>\<open>sqlite3\<close> are not part of the repository. Their
  primitives are parameters of the model:
  \<^item> \<open>bcrypt_hash password rounds salt\<close> is the digest \<^verbatim>\<open>bcrypt.hash(password, rounds)\<close>
    resolves to for a string, when the library draws \<open>salt\<close>;
  \<^item> \<open>bcrypt_compare password digest\<close> is what \<^verbatim>\<open>bcrypt.compare\<close> resolves to for two
    strings;
  \<^item> \<open>hmac secret payload\<close> is the HS256 signature of the encoded header and payload;
  \<^item> \<open>jwt_encode payload signature\<close> is the compact serialisation of a token and
    \<open>jwt_decode\<close> parses one (\<open>None\<close> for a string that is not a token);
  \<^item> \<open>sqlite_text v\<close> is the text a \<^verbatim>\<open>TEXT\<close> column holds, and a comparison with one
    uses, for a bound number, boolean, array or object (\<open>None\<close> for NULL).
\<close>

record libs =
  bcrypt_hash :: "string \<Rightarrow> nat \<Rightarrow> string \<Rightarrow> string"
  bcrypt_compare :: "string \<Rightarrow> string \<Rightarrow> bool"
  hmac :: "string \<Rightarrow> jwt_payload \<Rightarrow> string"
  jwt_encode :: "jwt_payload \<Rightarrow> string \<Rightarrow> string"
  jwt_decode :: "string \<Rightarrow> (jwt_payload \<times> string) option"
  sqlite_text :: "jsval \<Rightarrow> string option"

text \<open>
  The promise of \<^verbatim>\<open>bcrypt.hash(s, rounds)\<close> and of \<^verbatim>\<open>bcrypt.compare(s, digest)\<close>:
  bcryptjs rejects it (\<^verbatim>\<open>Illegal arguments\<close>) when \<^verbatim>\<open>s\<close> is not a string. \<open>None\<close> is
  the rejection.
\<close>

definition bcrypt_hash_promise :: "libs \<Rightarrow> jsval \<Rightarrow> nat \<Rightarrow> string \<Rightarrow> string option" where
  "bcrypt_hash_promise L s rounds salt =
     (case s of Str password \<Rightarrow> Some (bcrypt_hash L password rounds salt) | _ \<Rightarrow> None)"

definition bcrypt_compare_promise :: "libs \<Rightarrow> jsval \<Rightarrow> string \<Rightarrow> bool option" where
  "bcrypt_compare_promise L s digest =
     (case s of Str password \<Rightarrow> Some (bcrypt_compare L password digest) | _ \<Rightarrow> None)"

text \<open>
  A value bound to a \<^verbatim>\<open>?\<close> of a statement, as the text that a \<^verbatim>\<open>TEXT\<close> column keeps
  and compares: a string is itself, \<^verbatim>\<open>undefined\<close> and \<^verbatim>\<open>null\<close> are NULL, and the other
  values are what the library makes of them.
\<close>

definition bind_text :: "libs \<Rightarrow> jsval \<Rightarrow> string option" where
  "bind_text L v =
     (case v of
        Str s \<Rightarrow> Some s
      | Undefined \<Rightarrow> None
      | Null \<Rightarrow> None
      | _ \<Rightarrow> sqlite_text L v)"

text \<open>
  What the proofs below ask of the libraries, where they ask anything:
  \<^verbatim>\<open>bcrypt.compare\<close> accepts a password against its own digest, and the token decoder
  inverts the encoder on the payloads whose email is a string.
\<close>

definition bcrypt_sound :: "libs \<Rightarrow> bool" where
  "bcrypt_sound L = (\<forall>password rounds salt. bcrypt_compare L password (bcrypt_hash L password rounds salt))"

definition jwt_roundtrip :: "libs \<Rightarrow> bool" where
  "jwt_roundtrip L =
     (\<forall>uid e i x sg.
        jwt_decode L (jwt_encode L \<lparr>userId = uid, email = Str e, iat = i, exp = x\<rparr> sg) =
        Some (\<lparr>userId = uid, email = Str e, iat = i, exp = x\<rparr>, sg))"

text \<open>
  \<^verbatim>\<open>jwt.sign(payload, secret, { expiresIn })\<close>: jsonwebtoken stamps \<^verbatim>\<open>iat\<close> with the
  clock and \<^verbatim>\<open>exp\<close> with \<^verbatim>\<open>iat + expiresIn\<close>, signs and serialises.
  \<open>claims\<close> is the pair \<^verbatim>\<open>{ userId, email }\<close> of the call.
\<close>

definition jwt_sign :: "libs \<Rightarrow> nat \<times> jsval \<Rightarrow> string \<Rightarrow> nat \<Rightarrow> nat \<Rightarrow> string" where
  "jwt_sign L claims secret expiresIn now =
     (let payload = \<lparr>userId = fst claims, email = snd claims, iat = now, exp = Some (now + expiresIn)\<rparr>
      in jwt_encode L payload (hmac L secret payload))"

text \<open>
  \<^verbatim>\<open>jwt.verify(token, secret, callback)\<close>: the three ways jsonwebtoken fails on a
  non-empty string (\<^verbatim>\<open>JsonWebTokenError: jwt malformed\<close>,
  \<^verbatim>\<open>JsonWebTokenError: invalid signature\<close>, \<^verbatim>\<open>TokenExpiredError: jwt expired\<close>, the last
  when \<^verbatim>\<open>clockTimestamp >= payload.exp\<close>), in the order it checks them; otherwise the
  callback receives the payload.
\<close>

datatype jwt_error = JwtMalformed | InvalidSignature | TokenExpired

definition jwt_verify :: "libs \<Rightarrow> string \<Rightarrow> string \<Rightarrow> nat \<Rightarrow> jwt_error + jwt_payload" where
  "jwt_verify L token secret now =
     (case jwt_decode L token of
        None \<Rightarrow> Inl JwtMalformed
      | Some (payload, sg) \<Rightarrow>
          if sg \<noteq> hmac L secret payload then Inl InvalidSignature
          else (case exp payload of
                  None \<Rightarrow> Inr payload
                | Some e \<Rightarrow> if e \<le> now then Inl TokenExpired else Inr payload))"

text \<open>\<^verbatim>\<open>'24h'\<close> in seconds.\<close>

definition expiresIn_24h :: nat where
  "expiresIn_24h = 24 * 60 * 60"

section \<open>Configuration and start-up\<close>

text \<open>
  \<^verbatim>\<open>const PORT = process.env.PORT || 5000;\<close>
  \<^verbatim>\<open>const JWT_SECRET = process.env.JWT_SECRET || 'your-secret-key-here';\<close>
  The environment maps names to strings; \<^verbatim>\<open>||\<close> takes the right operand when the
  variable is unset or empty.
\<close>

definition or_default :: "string option \<Rightarrow> string \<Rightarrow> string" where
  "or_default v d = (case v of None \<Rightarrow> d | Some s \<Rightarrow> if s = [] then d else s)"

definition PORT :: "(string \<rightharpoonup> string) \<Rightarrow> string" where
  "PORT env = or_default (env ''PORT'') ''5000''"

definition JWT_SECRET :: "(string \<rightharpoonup> string) \<Rightarrow> string" where
  "JWT_SECRET env = or_default (env ''JWT_SECRET'') ''your-secret-key-here''"

text \<open>
  How start-up ends: the process exits without serving, or it listens on a port with
  a signing secret.
\<close>

datatype startup = Refused | Listening string string

text \<open>
  \<^verbatim>\<open>app.listen(PORT, '0.0.0.0', ...)\<close> is the statement of the module that ends
  start-up. Node throws on a port that is not an integer from 0 to 65535, and the
  system refuses one that is taken; either way the process exits. \<open>listen port\<close> says
  whether the call succeeds. Line 14, which reads the secret, has no way to fail.
\<close>

definition start_server :: "(string \<Rightarrow> bool) \<Rightarrow> (string \<rightharpoonup> string) \<Rightarrow> startup" where
  "start_server listen env =
     (let port = PORT env; secret = JWT_SECRET env
      in if listen port then Listening port secret else Refused)"

section \<open>The authentication middleware\<close>

text \<open>
  \<^verbatim>\<open>s.split(sep)\<close> for a one-character separator: the pieces between the occurrences of
  the separator, empty pieces included; a string without the separator is its own
  single piece.
\<close>

fun str_split :: "string \<Rightarrow> char \<Rightarrow> string list" where
  "str_split [] sep = [[]]"
| "str_split (c # cs) sep =
     (if c = sep then [] # str_split cs sep
      else (case str_split cs sep of
              [] \<Rightarrow> [[c]]
            | w # ws \<Rightarrow> (c # w) # ws))"

text \<open>\<^verbatim>\<open>a[i]\<close> on an array: \<^verbatim>\<open>undefined\<close> out of range.\<close>

definition at_index :: "'a list \<Rightarrow> nat \<Rightarrow> 'a option" where
  "at_index xs i = (if i < length xs then Some (xs ! i) else None)"

text \<open>
  \<^verbatim>\<open>const authHeader = req.headers['authorization'];\<close>
  \<^verbatim>\<open>const token = authHeader && authHeader.split(' ')[1];\<close>
\<close>

definition header_token :: "request \<Rightarrow> string option" where
  "header_token req =
     (let authHeader = req_headers req ''authorization''
      in if falsy authHeader then authHeader
         else at_index (str_split (the authHeader) CHR '' '') 1)"

text \<open>
  The middleware either answers itself (\<open>Inl\<close>) or hands the request, with
  \<^verbatim>\<open>req.user\<close> set, to the next handler (\<open>Inr\<close>).
\<close>

definition authenticateToken :: "libs \<Rightarrow> string \<Rightarrow> nat \<Rightarrow> request \<Rightarrow> response + request" where
  "authenticateToken L secret now req =
     (let token = header_token req
      in if falsy token then Inl (json_message 401 ''Access token required'')
         else (case jwt_verify L (the token) secret now of
                 Inl err \<Rightarrow> Inl (json_message 403 ''Invalid token'')
               | Inr user \<Rightarrow> Inr (req\<lparr>req_user := Some user\<rparr>)))"

section \<open>The database\<close>

text \<open>
  The three tables the handlers below touch, each as the list of its rows in insertion
  order, with the columns of the \<^verbatim>\<open>CREATE TABLE\<close> statements. A column holds the text
  of the value bound to it, a nullable column an option; \<^verbatim>\<open>created_at\<close> is the clock at
  the insert.
\<close>

record user_row =
  u_id :: nat
  u_email :: string
  u_password :: string
  u_name :: string
  u_phone :: "string option"
  u_created_at :: nat

record ride_row =
  r_id :: nat
  r_user_id :: nat
  r_origin :: string
  r_destination :: string
  r_departure_time :: string
  r_available_seats :: string
  r_price_per_seat :: "string option"
  r_description :: "string option"
  r_status :: string
  r_created_at :: nat

record plan_row =
  t_id :: nat
  t_user_id :: nat
  t_destination :: string
  t_start_date :: string
  t_end_date :: string
  t_description :: "string option"
  t_budget_range :: "string option"
  t_interests :: "string option"
  t_status :: string
  t_created_at :: nat

record db =
  users :: "user_row list"
  carpool_rides :: "ride_row list"
  travel_plans :: "plan_row list"

datatype sqlite_error = SQLITE_CONSTRAINT

text \<open>
  \<^verbatim>\<open>INTEGER PRIMARY KEY AUTOINCREMENT\<close>: the new row id is one more than the largest
  id the table has held; no statement of the server deletes a row.
\<close>

definition next_rowid :: "nat list \<Rightarrow> nat" where
  "next_rowid ids = Suc (fold max ids 0)"

text \<open>
  \<^verbatim>\<open>db.get('SELECT * FROM users WHERE email = ?', [email], callback)\<close>: the first row
  with that email (the comparison is SQLite's binary one), or \<^verbatim>\<open>undefined\<close>; no row
  equals NULL. The callback's \<^verbatim>\<open>err\<close> is the \<open>Inl\<close> of the result. The tables are
  modelled in memory, so the only errors are those of the schema's constraints and a
  read has none; failures of the database file are outside the model.
\<close>

definition db_get_user :: "db \<Rightarrow> string option \<Rightarrow> sqlite_error + user_row option" where
  "db_get_user d bound =
     Inr (case bound of None \<Rightarrow> None | Some e \<Rightarrow> find (\<lambda>u. u_email u = e) (users d))"

text \<open>
  \<^verbatim>\<open>INSERT INTO users (email, password, name, phone) VALUES (?, ?, ?, ?)\<close>: the columns
  \<^verbatim>\<open>email\<close>, \<^verbatim>\<open>password\<close> and \<^verbatim>\<open>name\<close> are \<^verbatim>\<open>NOT NULL\<close> and \<^verbatim>\<open>email\<close> is \<^verbatim>\<open>UNIQUE\<close>,
  so the insert fails on a NULL among the three and when a row has the email already.
  The result carries \<^verbatim>\<open>this.lastID\<close>.
\<close>

definition db_insert_user ::
  "db \<Rightarrow> nat \<Rightarrow> string option \<Rightarrow> string option \<Rightarrow> string option \<Rightarrow> string option
     \<Rightarrow> sqlite_error + db \<times> nat" where
  "db_insert_user d now e pw n ph =
     (case (e, pw, n) of
        (Some e', Some pw', Some n') \<Rightarrow>
          if e' \<in> set (map u_email (users d)) then Inl SQLITE_CONSTRAINT
          else (let lastID = next_rowid (map u_id (users d));
                    row = \<lparr>u_id = lastID, u_email = e', u_password = pw', u_name = n',
                           u_phone = ph, u_created_at = now\<rparr>
                in Inr (d\<lparr>users := users d @ [row]\<rparr>, lastID))
      | _ \<Rightarrow> Inl SQLITE_CONSTRAINT)"

text \<open>
  \<^verbatim>\<open>INSERT INTO carpool_rides (user_id, origin, destination, departure_time,
  available_seats, price_per_seat, description) VALUES (?, ?, ?, ?, ?, ?, ?)\<close>;
  \<^verbatim>\<open>origin\<close>, \<^verbatim>\<open>destination\<close>, \<^verbatim>\<open>departure_time\<close> and \<^verbatim>\<open>available_seats\<close> are
  \<^verbatim>\<open>NOT NULL\<close>, and \<^verbatim>\<open>status\<close> takes its default.
\<close>

definition db_insert_ride ::
  "db \<Rightarrow> nat \<Rightarrow> nat \<Rightarrow> string option \<Rightarrow> string option \<Rightarrow> string option \<Rightarrow> string option
     \<Rightarrow> string option \<Rightarrow> string option \<Rightarrow> sqlite_error + db \<times> nat" where
  "db_insert_ride d now uid origin destination departure_time available_seats price_per_seat description =
     (case (origin, destination, departure_time, available_seats) of
        (Some origin', Some destination', Some departure_time', Some available_seats') \<Rightarrow>
          (let lastID = next_rowid (map r_id (carpool_rides d));
               row = \<lparr>r_id = lastID, r_user_id = uid, r_origin = origin',
                      r_destination = destination', r_departure_time = departure_time',
                      r_available_seats = available_seats',
                      r_price_per_seat = price_per_seat, r_description = description,
                      r_status = ''active'', r_created_at = now\<rparr>
           in Inr (d\<lparr>carpool_rides := carpool_rides d @ [row]\<rparr>, lastID))
      | _ \<Rightarrow> Inl SQLITE_CONSTRAINT)"

text \<open>
  \<^verbatim>\<open>INSERT INTO travel_plans (user_id, destination, start_date, end_date, description,
  budget_range, interests) VALUES (?, ?, ?, ?, ?, ?, ?)\<close>; \<^verbatim>\<open>destination\<close>,
  \<^verbatim>\<open>start_date\<close> and \<^verbatim>\<open>end_date\<close> are \<^verbatim>\<open>NOT NULL\<close>.
\<close>

definition db_insert_plan ::
  "db \<Rightarrow> nat \<Rightarrow> nat \<Rightarrow> string option \<Rightarrow> string option \<Rightarrow> string option \<Rightarrow> string option
     \<Rightarrow> string option \<Rightarrow> string option \<Rightarrow> sqlite_error + db \<times> nat" where
  "db_insert_plan d now uid destination start_date end_date description budget_range interests =
     (case (destination, start_date, end_date) of
        (Some destination', Some start_date', Some end_date') \<Rightarrow>
          (let lastID = next_rowid (map t_id (travel_plans d));
               row = \<lparr>t_id = lastID, t_user_id = uid, t_destination = destination',
                      t_start_date = start_date', t_end_date = end_date',
                      t_description = description, t_budget_range = budget_range,
                      t_interests = interests, t_status = ''active'', t_created_at = now\<rparr>
           in Inr (d\<lparr>travel_plans := travel_plans d @ [row]\<rparr>, lastID))
      | _ \<Rightarrow> Inl SQLITE_CONSTRAINT)"

section \<open>Registration and login\<close>

text \<open>
  How a request ends for the client: a response is sent, or none is. The second is an
  unhandled rejection: a promise awaited inside the database callback rejects, outside
  the \<^verbatim>\<open>try\<close> of the handler, nothing is sent and Node ends the process.
\<close>

datatype outcome = Sent response | Crashed

text \<open>
  A handler returns how the request ends, the database it leaves and the calls it
  made to the database and to the two libraries, in order.
\<close>

datatype call = DbGet | DbRun | BcryptHash | BcryptCompare | JwtSign

text \<open>
  \<^verbatim>\<open>app.post('/api/register', ...)\<close>. \<open>now\<close> is the clock and \<open>salt\<close> the salt
  that \<^verbatim>\<open>bcrypt.hash(password, 10)\<close> draws. The \<^verbatim>\<open>catch\<close> of the handler
  (500 \<^verbatim>\<open>Server error\<close>) covers the statements before the database callback, none of
  which throws, and has no branch here.
\<close>

definition register ::
  "libs \<Rightarrow> string \<Rightarrow> nat \<Rightarrow> string \<Rightarrow> request \<Rightarrow> db \<Rightarrow> outcome \<times> db \<times> call list" where
  "register L secret now salt req d =
     (let email = req_body req ''email'';
          password = req_body req ''password'';
          name = req_body req ''name'';
          phone = req_body req ''phone''
      in if falsy_js email \<or> falsy_js password \<or> falsy_js name
         then (Sent (json_message 400 ''Email, password, and name are required''), d, [])
         else (case db_get_user d (bind_text L email) of
                 Inl err \<Rightarrow> (Sent (json_message 500 ''Database error''), d, [DbGet])
               | Inr (Some user) \<Rightarrow> (Sent (json_message 400 ''User already exists''), d, [DbGet])
               | Inr None \<Rightarrow>
                   (case bcrypt_hash_promise L password 10 salt of
                      None \<Rightarrow> (Crashed, d, [DbGet, BcryptHash])
                    | Some hashedPassword \<Rightarrow>
                        (case db_insert_user d now (bind_text L email) (Some hashedPassword)
                                (bind_text L name) (bind_text L phone) of
                           Inl err \<Rightarrow>
                             (Sent (json_message 500 ''Error creating user''), d,
                              [DbGet, BcryptHash, DbRun])
                         | Inr (d', lastID) \<Rightarrow>
                             (let token = jwt_sign L (lastID, email) secret expiresIn_24h now
                              in (Sent \<lparr>status = 201,
                                        json = Obj [(''token'', Str token),
                                                    (''user'', Obj [(''id'', Num (int lastID)),
                                                                   (''email'', email),
                                                                   (''name'', name),
                                                                   (''phone'', phone)])]\<rparr>,
                                  d', [DbGet, BcryptHash, DbRun, JwtSign]))))))"

text \<open>\<^verbatim>\<open>app.post('/api/login', ...)\<close>; \<^verbatim>\<open>res.json\<close> without a status answers 200.\<close>

definition login ::
  "libs \<Rightarrow> string \<Rightarrow> nat \<Rightarrow> request \<Rightarrow> db \<Rightarrow> outcome \<times> db \<times> call list" where
  "login L secret now req d =
     (let email = req_body req ''email'';
          password = req_body req ''password''
      in if falsy_js email \<or> falsy_js password
         then (Sent (json_message 400 ''Email and password are required''), d, [])
         else (case db_get_user d (bind_text L email) of
                 Inl err \<Rightarrow> (Sent (json_message 500 ''Database error''), d, [DbGet])
               | Inr None \<Rightarrow> (Sent (json_message 400 ''Invalid credentials''), d, [DbGet])
               | Inr (Some user) \<Rightarrow>
                   (case bcrypt_compare_promise L password (u_password user) of
                      None \<Rightarrow> (Crashed, d, [DbGet, BcryptCompare])
                    | Some isValidPassword \<Rightarrow>
                        if \<not> isValidPassword
                        then (Sent (json_message 400 ''Invalid credentials''), d, [DbGet, BcryptCompare])
                        else (let token = jwt_sign L (u_id user, Str (u_email user)) secret
                                            expiresIn_24h now
                              in (Sent \<lparr>status = 200,
                                        json = Obj [(''token'', Str token),
                                                    (''user'', Obj [(''id'', Num (int (u_id user))),
                                                                   (''email'', Str (u_email user)),
                                                                   (''name'', Str (u_name user)),
                                                                   (''phone'', js_of_column (u_phone user))])]\<rparr>,
                                  d, [DbGet, BcryptCompare, JwtSign])))))"

section \<open>The protected routes\<close>

text \<open>
  The handler of \<^verbatim>\<open>app.post('/api/carpool/rides', authenticateToken, ...)\<close>. Reading
  \<^verbatim>\<open>req.user.userId\<close> throws when \<^verbatim>\<open>req.user\<close> is not set, and Express hands the
  exception to the error middleware at the end of \<^verbatim>\<open>server.js\<close>.
\<close>

definition carpool_rides_handler :: "libs \<Rightarrow> nat \<Rightarrow> request \<Rightarrow> db \<Rightarrow> response \<times> db" where
  "carpool_rides_handler L now req d =
     (let origin = req_body req ''origin'';
          destination = req_body req ''destination'';
          departure_time = req_body req ''departure_time'';
          available_seats = req_body req ''available_seats'';
          price_per_seat = req_body req ''price_per_seat'';
          description = req_body req ''description''
      in if falsy_js origin \<or> falsy_js destination \<or> falsy_js departure_time \<or> falsy_js available_seats
         then (json_message 400 ''All required fields must be provided'', d)
         else (case req_user req of
                 None \<Rightarrow> (json_message 500 ''Something went wrong!'', d)
               | Some user \<Rightarrow>
                   (case db_insert_ride d now (userId user) (bind_text L origin)
                           (bind_text L destination) (bind_text L departure_time)
                           (bind_text L available_seats) (bind_text L price_per_seat)
                           (bind_text L description) of
                      Inl err \<Rightarrow> (json_message 500 ''Error creating ride'', d)
                    | Inr (d', lastID) \<Rightarrow>
                        (\<lparr>status = 201,
                          json = Obj [(''id'', Num (int lastID)),
                                      (''message'', Str ''Ride created successfully'')]\<rparr>, d'))))"

definition post_carpool_rides :: "libs \<Rightarrow> string \<Rightarrow> nat \<Rightarrow> request \<Rightarrow> db \<Rightarrow> response \<times> db" where
  "post_carpool_rides L secret now req d =
     (case authenticateToken L secret now req of
        Inl res \<Rightarrow> (res, d)
      | Inr req' \<Rightarrow> carpool_rides_handler L now req' d)"

text \<open>The handler of \<^verbatim>\<open>app.post('/api/travel/plans', authenticateToken, ...)\<close>.\<close>

definition travel_plans_handler :: "libs \<Rightarrow> nat \<Rightarrow> request \<Rightarrow> db \<Rightarrow> response \<times> db" where
  "travel_plans_handler L now req d =
     (let destination = req_body req ''destination'';
          start_date = req_body req ''start_date'';
          end_date = req_body req ''end_date'';
          description = req_body req ''description'';
          budget_range = req_body req ''budget_range'';
          interests = req_body req ''interests''
      in if falsy_js destination \<or> falsy_js start_date \<or> falsy_js end_date
         then (json_message 400 ''Destination, start date, and end date are required'', d)
         else (case req_user req of
                 None \<Rightarrow> (json_message 500 ''Something went wrong!'', d)
               | Some user \<Rightarrow>
                   (case db_insert_plan d now (userId user) (bind_text L destination)
                           (bind_text L start_date) (bind_text L end_date)
                           (bind_text L description) (bind_text L budget_range)
                           (bind_text L interests) of
                      Inl err \<Rightarrow> (json_message 500 ''Error creating travel plan'', d)
                    | Inr (d', lastID) \<Rightarrow>
                        (\<lparr>status = 201,
                          json = Obj [(''id'', Num (int lastID)),
                                      (''message'', Str ''Travel plan created successfully'')]\<rparr>, d'))))"

definition post_travel_plans :: "libs \<Rightarrow> string \<Rightarrow> nat \<Rightarrow> request \<Rightarrow> db \<Rightarrow> response \<times> db" where
  "post_travel_plans L secret now req d =
     (case authenticateToken L secret now req of
        Inl res \<Rightarrow> (res, d)
      | Inr req' \<Rightarrow> travel_plans_handler L now req' d)"

section \<open>Reading a response\<close>

text \<open>The field names of a JSON value, nested arrays and objects included.\<close>

fun keys_of :: "jsval \<Rightarrow> string list" where
  "keys_of (Obj fs) = concat (map (\<lambda>kv. fst kv # keys_of (snd kv)) fs)"
| "keys_of (Arr vs) = concat (map keys_of vs)"
| "keys_of v = []"

text \<open>The \<^verbatim>\<open>token\<close> field of a response body, as a client reads it.\<close>

definition response_token :: "response \<Rightarrow> string option" where
  "response_token res =
     (case json res of
        Obj fs \<Rightarrow> (case map_of fs ''token'' of Some (Str t) \<Rightarrow> Some t | _ \<Rightarrow> None)
      | _ \<Rightarrow> None)"

section \<open>An instance of the library interface\<close>

text \<open>
  A small stand-in for the libraries, used to run the model on concrete requests.
  It has the shape of the real ones and none of their cryptography: a digest is the
  password followed by the salt, a signature is the secret followed by the email, and a
  token is its four payload fields in unary, separated by dots, then the email and the
  signature. It writes the email of a payload as text and reads it back as a string, so
  it inverts itself on the payloads whose email is a string. A bound boolean is kept as
  \<^verbatim>\<open>1\<close> or \<^verbatim>\<open>0\<close> and every other non-string value as NULL.
\<close>

definition toy_text :: "jsval \<Rightarrow> string" where
  "toy_text v = (case v of Str s \<Rightarrow> s | _ \<Rightarrow> [])"

definition toy_encode :: "jwt_payload \<Rightarrow> string \<Rightarrow> string" where
  "toy_encode p sg =
     replicate (userId p) CHR ''1'' @ ''.'' @ replicate (iat p) CHR ''1'' @ ''.'' @
     (case exp p of None \<Rightarrow> [] | Some e \<Rightarrow> replicate (Suc e) CHR ''1'') @ ''.'' @
     replicate (length (toy_text (email p))) CHR ''1'' @ ''.'' @ toy_text (email p) @ sg"

definition cut :: "string \<Rightarrow> string \<times> string" where
  "cut s = (takeWhile (\<lambda>c. c \<noteq> CHR ''.'') s, drop 1 (dropWhile (\<lambda>c. c \<noteq> CHR ''.'') s))"

definition toy_decode :: "string \<Rightarrow> (jwt_payload \<times> string) option" where
  "toy_decode t =
     (if length (filter (\<lambda>c. c = CHR ''.'') t) < 4 then None
      else (let (a, r1) = cut t; (b, r2) = cut r1; (c, r3) = cut r2; (n, r4) = cut r3
            in Some (\<lparr>userId = length a, email = Str (take (length n) r4), iat = length b,
                      exp = (if c = [] then None else Some (length c - 1))\<rparr>,
                     drop (length n) r4)))"

definition toy_libs :: libs where
  "toy_libs =
     \<lparr>bcrypt_hash = (\<lambda>password rounds salt. password @ ''$'' @ salt),
      bcrypt_compare = (\<lambda>password digest. take (Suc (length password)) digest = password @ ''$''),
      hmac = (\<lambda>secret payload. secret @ ''/'' @ toy_text (email payload)),
      jwt_encode = toy_encode,
      jwt_decode = toy_decode,
      sqlite_text = (\<lambda>v. case v of Bool b \<Rightarrow> Some (if b then ''1'' else ''0'') | _ \<Rightarrow> None)\<rparr>"

text \<open>
  A system for \<^verbatim>\<open>app.listen\<close>: every port from 0 to 65535 written in decimal digits
  is free, and nothing else is accepted.
\<close>

definition digit_val :: "char \<Rightarrow> nat option" where
  "digit_val = map_of (zip ''0123456789'' [0, 1, 2, 3, 4, 5, 6, 7, 8, 9])"

fun decimal :: "string \<Rightarrow> nat \<Rightarrow> nat option" where
  "decimal [] n = Some n"
| "decimal (c # cs) n = (case digit_val c of None \<Rightarrow> None | Some k \<Rightarrow> decimal cs (10 * n + k))"

definition decimal_listen :: "string \<Rightarrow> bool" where
  "decimal_listen port =
     (port \<noteq> [] \<and> (case decimal port 0 of None \<Rightarrow> False | Some n \<Rightarrow> n \<le> 65535))"

section \<open>Concrete requests and tables\<close>

text \<open>A request with the given headers and body fields, before any middleware ran.\<close>

definition mk_request :: "(string \<times> string) list \<Rightarrow> (string \<times> jsval) list \<Rightarrow> request" where
  "mk_request hs fs =
     \<lparr>req_headers = map_of hs,
      req_body = (\<lambda>k. case map_of fs k of None \<Rightarrow> Undefined | Some v \<Rightarrow> v),
      req_user = None\<rparr>"

text \<open>
  A table holding one user, registered with the password \<^verbatim>\<open>pw12345\<close> under the
  instance above, and an empty database.
\<close>

definition alice_row :: user_row where
  "alice_row = \<lparr>u_id = 1, u_email = ''alice@example.com'', u_password = ''pw12345$s1'',
                u_name = ''Alice'', u_phone = None, u_created_at = 100\<rparr>"

definition alice_db :: db where
  "alice_db = \<lparr>users = [alice_row], carpool_rides = [], travel_plans = []\<rparr>"

definition empty_db :: db where
  "empty_db = \<lparr>users = [], carpool_rides = [], travel_plans = []\<rparr>"

text \<open>A token of the instance for that user, signed with the secret \<^verbatim>\<open>k\<close>, expiring at 20.\<close>

definition alice_payload :: jwt_payload where
  "alice_payload = \<lparr>userId = 1, email = Str ''alice@example.com'', iat = 10, exp = Some 20\<rparr>"

definition alice_token :: string where
  "alice_token = toy_encode alice_payload ''k/alice@example.com''"

text \<open>
  A request to a protected route that presents that token and whose body, next to the
  fields of a ride and of a travel plan, names a user id of the client's choosing.
\<close>

definition ride_request :: request where
  "ride_request =
     mk_request [(''authorization'', ''Bearer '' @ alice_token)]
       [(''origin'', Str ''Pune''), (''destination'', Str ''Mumbai''),
        (''departure_time'', Str ''2026-01-01 09:00''), (''available_seats'', Str ''3''),
        (''start_date'', Str ''2026-01-01''), (''end_date'', Str ''2026-01-05''),
        (''user_id'', Str ''999''), (''userId'', Num 999)]"

text \<open>The same payload signed with another secret.\<close>

definition forged_token :: string where
  "forged_token = toy_encode alice_payload ''x/alice@example.com''"

text \<open>
  A registration under an email that the one-user table holds already, with another
  password, and a registration under a new email.
\<close>

definition mallory_request :: request where
  "mallory_request =
     mk_request [] [(''email'', Str ''alice@example.com''), (''password'', Str ''letmein''),
                    (''name'', Str ''Mallory'')]"

definition bob_request :: request where
  "bob_request =
     mk_request [] [(''email'', Str ''bob@example.com''), (''password'', Str ''hunter2''),
                    (''name'', Str ''Bob'')]"

text \<open>
  A login under the email of the one-user table, with a password that is a string and
  with one that is the JSON number 12345.
\<close>

definition alice_login :: "string \<Rightarrow> request" where
  "alice_login pw = mk_request [] [(''email'', Str ''alice@example.com''), (''password'', Str pw)]"

definition alice_login_number :: request where
  "alice_login_number =
     mk_request [] [(''email'', Str ''alice@example.com''), (''password'', Num 12345)]"

section \<open>Facts about the instance\<close>

lemma cut_field: "CHR ''.'' \<notin> set a \<Longrightarrow> cut (a @ CHR ''.'' # r) = (a, r)"
  by (induction a) (auto simp: cut_def)

lemma toy_decode_encode:
  assumes "email p = Str e"
  shows "toy_decode (toy_encode p sg) = Some (p, sg)"
proof -
  have ones: "\<And>k. CHR ''.'' \<notin> set (replicate k CHR ''1'')" by simp
  have e: "CHR ''.'' \<notin> set (case exp p of None \<Rightarrow> [] | Some e \<Rightarrow> replicate (Suc e) CHR ''1'')"
    by (cases "exp p") simp_all
  have dots: "\<not> length (filter (\<lambda>c. c = CHR ''.'') (toy_encode p sg)) < 4"
    by (simp add: toy_encode_def)
  have ex: "(if (case exp p of None \<Rightarrow> [] | Some e \<Rightarrow> replicate (Suc e) CHR ''1'') = [] then None
             else Some (length (case exp p of None \<Rightarrow> [] | Some e \<Rightarrow> replicate (Suc e) CHR ''1'') - 1)) = exp p"
    by (cases "exp p") simp_all
  have p: "\<lparr>userId = userId p, email = Str e, iat = iat p, exp = exp p\<rparr> = p"
    using assms by (cases p) simp
  show ?thesis
    unfolding toy_decode_def using dots
    apply (simp only: if_False)
    apply (simp add: toy_encode_def toy_text_def assms cut_field[OF ones] cut_field[OF e] ex p
                del: replicate_Suc)
    done
qed

lemma toy_roundtrip: "jwt_roundtrip toy_libs"
  by (simp add: jwt_roundtrip_def toy_libs_def toy_decode_encode)

lemma toy_bcrypt: "bcrypt_sound toy_libs"
  by (simp add: bcrypt_sound_def toy_libs_def)

lemma decimal_listen_default: "decimal_listen ''5000''"
  by (simp add: decimal_listen_def digit_val_def)

lemma decimal_listen_8080: "decimal_listen ''8080''"
  by (simp add: decimal_listen_def digit_val_def)

lemma decimal_listen_99999: "\<not> decimal_listen ''99999''"
  by (simp add: decimal_listen_def digit_val_def)

section \<open>Facts about the middleware\<close>

lemma falsy_simps: "falsy None" "falsy (Some s) = (s = [])"
  by (simp_all add: falsy_def)

lemma str_split_not_Nil: "str_split s sep \<noteq> []"
  by (induction s) (auto split: list.splits)

lemma str_split_no_sep: "sep \<notin> set s \<Longrightarrow> str_split s sep = [s]"
  by (induction s) auto

lemma hd_str_split: "hd (str_split s sep) = takeWhile (\<lambda>c. c \<noteq> sep) s"
  by (induction s) (auto simp: str_split_not_Nil split: list.splits)

lemma str_split_first: "sep \<notin> set w \<Longrightarrow> str_split (w @ sep # r) sep = w # str_split r sep"
  by (induction w) auto

lemma second_piece:
  assumes "sep \<notin> set w"
  shows "at_index (str_split (w @ sep # r) sep) (Suc 0) = Some (takeWhile (\<lambda>c. c \<noteq> sep) r)"
proof -
  obtain p ps where ps: "str_split r sep = p # ps"
    using str_split_not_Nil [of r sep] by (cases "str_split r sep") auto
  then have "p = takeWhile (\<lambda>c. c \<noteq> sep) r"
    using hd_str_split [of r sep] by simp
  with ps show ?thesis
    by (simp add: str_split_first [OF assms] at_index_def)
qed

lemma header_token_scheme:
  assumes "req_headers req ''authorization'' = Some (w @ CHR '' '' # t)" and "CHR '' '' \<notin> set w"
  shows "header_token req = Some (takeWhile (\<lambda>c. c \<noteq> CHR '' '') t)"
  using assms by (simp add: header_token_def falsy_simps second_piece)

lemma header_token_no_space:
  assumes "req_headers req ''authorization'' = Some h" and "CHR '' '' \<notin> set h"
  shows "falsy (header_token req)"
  using assms by (cases "h = []") (simp_all add: header_token_def falsy_simps str_split_no_sep at_index_def)

lemma authenticate_cases:
  "authenticateToken L secret now req =
     (case header_token req of
        None \<Rightarrow> Inl (json_message 401 ''Access token required'')
      | Some tok \<Rightarrow>
          if tok = [] then Inl (json_message 401 ''Access token required'')
          else (case jwt_verify L tok secret now of
                  Inl err \<Rightarrow> Inl (json_message 403 ''Invalid token'')
                | Inr user \<Rightarrow> Inr (req\<lparr>req_user := Some user\<rparr>)))"
  by (simp add: authenticateToken_def falsy_def split: option.splits)

lemma toy_verify:
  assumes "email p = Str e"
  shows "jwt_verify toy_libs (toy_encode p sg) secret now =
     (if sg \<noteq> secret @ ''/'' @ e then Inl InvalidSignature
      else (case exp p of None \<Rightarrow> Inr p | Some x \<Rightarrow> if x \<le> now then Inl TokenExpired else Inr p))"
  using assms
  by (simp add: jwt_verify_def toy_libs_def toy_text_def toy_decode_encode [OF assms])

lemma alice_token_word: "takeWhile (\<lambda>c. c \<noteq> CHR '' '') alice_token = alice_token"
  by (simp add: alice_token_def alice_payload_def toy_encode_def toy_text_def)

lemma alice_token_nonempty: "alice_token \<noteq> []"
  by (simp add: alice_token_def alice_payload_def toy_encode_def toy_text_def)

lemma forged_token_word: "takeWhile (\<lambda>c. c \<noteq> CHR '' '') forged_token = forged_token"
  by (simp add: forged_token_def alice_payload_def toy_encode_def toy_text_def)

lemma forged_token_nonempty: "forged_token \<noteq> []"
  by (simp add: forged_token_def alice_payload_def toy_encode_def toy_text_def)

lemma toy_verify_garbage: "jwt_verify toy_libs ''garbage'' secret now = Inl JwtMalformed"
  by (simp add: jwt_verify_def toy_libs_def toy_decode_def)

lemma alice_payload_email: "email alice_payload = Str ''alice@example.com''"
  by (simp add: alice_payload_def)

lemma toy_verify_alice:
  "jwt_verify toy_libs alice_token ''k'' now = (if 20 \<le> now then Inl TokenExpired else Inr alice_payload)"
  by (simp add: alice_token_def toy_verify [OF alice_payload_email]) (simp add: alice_payload_def)

lemma toy_verify_forged: "jwt_verify toy_libs forged_token ''k'' now = Inl InvalidSignature"
  by (simp add: forged_token_def toy_verify [OF alice_payload_email])

lemma header_token_bearer:
  "takeWhile (\<lambda>c. c \<noteq> CHR '' '') t = t \<Longrightarrow>
   header_token (mk_request [(''authorization'', ''Bearer '' @ t)] fs) = Some t"
  using header_token_scheme [of "mk_request [(''authorization'', ''Bearer '' @ t)] fs" "''Bearer''" t]
  by (simp add: mk_request_def)

section \<open>Facts about the handlers\<close>

lemma falsy_js_simps:
  "falsy_js Undefined" "falsy_js Null" "falsy_js (Str s) = (s = [])" "falsy_js (Num n) = (n = 0)"
  "falsy_js (Bool b) = (\<not> b)" "\<not> falsy_js (Arr vs)" "\<not> falsy_js (Obj fs)"
  by (simp_all add: falsy_js_def)

lemma bind_text_simps:
  "bind_text L (Str s) = Some s" "bind_text L Undefined = None" "bind_text L Null = None"
  by (simp_all add: bind_text_def)

lemma bcrypt_promise_Str:
  "bcrypt_hash_promise L (Str s) rounds salt = Some (bcrypt_hash L s rounds salt)"
  "bcrypt_compare_promise L (Str s) digest = Some (bcrypt_compare L s digest)"
  by (simp_all add: bcrypt_hash_promise_def bcrypt_compare_promise_def)

lemma bcrypt_promise_other:
  assumes "\<And>s. v \<noteq> Str s"
  shows "bcrypt_hash_promise L v rounds salt = None" "bcrypt_compare_promise L v digest = None"
  using assms by (cases v; simp add: bcrypt_hash_promise_def bcrypt_compare_promise_def)+

lemma toy_compare:
  "bcrypt_compare toy_libs password digest = (take (Suc (length password)) digest = password @ ''$'')"
  by (simp add: toy_libs_def)

lemma find_email_None: "e \<notin> set (map u_email rows) \<Longrightarrow> find (\<lambda>u. u_email u = e) rows = None"
  by (induction rows) auto

lemma find_email_Some: "e \<in> set (map u_email rows) \<Longrightarrow> \<exists>u. find (\<lambda>u. u_email u = e) rows = Some u"
  by (induction rows) auto

lemma find_email_new:
  "e \<notin> set (map u_email rows) \<Longrightarrow> u_email row = e \<Longrightarrow> find (\<lambda>u. u_email u = e) (rows @ [row]) = Some row"
  by (induction rows) auto

text \<open>The registration handler past the presence check, by what the lookup finds.\<close>

lemma register_found:
  assumes "\<not> falsy_js (req_body req ''email'')" "\<not> falsy_js (req_body req ''password'')"
      and "\<not> falsy_js (req_body req ''name'')"
      and "db_get_user d (bind_text L (req_body req ''email'')) = Inr (Some u)"
  shows "register L secret now salt req d = (Sent (json_message 400 ''User already exists''), d, [DbGet])"
  using assms by (simp add: register_def)

lemma register_fresh:
  assumes "req_body req ''email'' = Str e" "e \<noteq> []"
      and "req_body req ''password'' = Str pw" "pw \<noteq> []"
      and "req_body req ''name'' = Str n" "n \<noteq> []"
      and "e \<notin> set (map u_email (users d))"
  shows "register L secret now salt req d =
     (Sent \<lparr>status = 201,
            json = Obj [(''token'', Str (jwt_sign L (next_rowid (map u_id (users d)), Str e) secret
                                          expiresIn_24h now)),
                        (''user'', Obj [(''id'', Num (int (next_rowid (map u_id (users d))))),
                                       (''email'', Str e),
                                       (''name'', Str n),
                                       (''phone'', req_body req ''phone'')])]\<rparr>,
      d\<lparr>users := users d @
           [\<lparr>u_id = next_rowid (map u_id (users d)), u_email = e,
             u_password = bcrypt_hash L pw 10 salt, u_name = n,
             u_phone = bind_text L (req_body req ''phone''), u_created_at = now\<rparr>]\<rparr>,
      [DbGet, BcryptHash, DbRun, JwtSign])"
  using assms
  by (simp add: register_def db_get_user_def db_insert_user_def falsy_js_simps bind_text_simps
        bcrypt_promise_Str find_email_None Let_def)

text \<open>
  A registration under a new email whose password is not a string: the promise of
  \<^verbatim>\<open>bcrypt.hash\<close> rejects inside the database callback, no response is sent and no row
  is written.
\<close>

lemma register_password_not_string:
  assumes "\<not> falsy_js (req_body req ''email'')" "\<not> falsy_js (req_body req ''password'')"
      and "\<not> falsy_js (req_body req ''name'')"
      and "db_get_user d (bind_text L (req_body req ''email'')) = Inr None"
      and "\<And>s. req_body req ''password'' \<noteq> Str s"
  shows "register L secret now salt req d = (Crashed, d, [DbGet, BcryptHash])"
  using assms by (simp add: register_def bcrypt_promise_other)

text \<open>The login handler past the presence check, by what the lookup finds.\<close>

lemma login_not_found:
  assumes "\<not> falsy_js (req_body req ''email'')" "\<not> falsy_js (req_body req ''password'')"
      and "db_get_user d (bind_text L (req_body req ''email'')) = Inr None"
  shows "login L secret now req d = (Sent (json_message 400 ''Invalid credentials''), d, [DbGet])"
  using assms by (simp add: login_def)

lemma login_found:
  assumes "\<not> falsy_js (req_body req ''email'')"
      and "req_body req ''password'' = Str pw" "pw \<noteq> []"
      and "db_get_user d (bind_text L (req_body req ''email'')) = Inr (Some user)"
  shows "login L secret now req d =
     (if \<not> bcrypt_compare L pw (u_password user)
      then (Sent (json_message 400 ''Invalid credentials''), d, [DbGet, BcryptCompare])
      else (Sent \<lparr>status = 200,
                  json = Obj [(''token'', Str (jwt_sign L (u_id user, Str (u_email user)) secret
                                                expiresIn_24h now)),
                              (''user'', Obj [(''id'', Num (int (u_id user))),
                                             (''email'', Str (u_email user)),
                                             (''name'', Str (u_name user)),
                                             (''phone'', js_of_column (u_phone user))])]\<rparr>,
            d, [DbGet, BcryptCompare, JwtSign]))"
  using assms by (simp add: login_def falsy_js_simps bcrypt_promise_Str Let_def)

text \<open>
  A login under a known email whose password is not a string: the promise of
  \<^verbatim>\<open>bcrypt.compare\<close> rejects inside the database callback and no response is sent,
  where the same login under an unknown email is answered 400.
\<close>

lemma login_password_not_string:
  assumes "\<not> falsy_js (req_body req ''email'')" "\<not> falsy_js (req_body req ''password'')"
      and "db_get_user d (bind_text L (req_body req ''email'')) = Inr (Some user)"
      and "\<And>s. req_body req ''password'' \<noteq> Str s"
  shows "login L secret now req d = (Crashed, d, [DbGet, BcryptCompare])"
  using assms by (simp add: login_def bcrypt_promise_other)

lemma db_get_user_Str:
  "db_get_user d (bind_text L (Str e)) = Inr (find (\<lambda>u. u_email u = e) (users d))"
  by (simp add: db_get_user_def bind_text_simps)

lemma keys_of_message: "keys_of (json (json_message code m)) = [''message'']"
  by (simp add: json_message_def)

lemma keys_of_column: "keys_of (js_of_column v) = []"
  by (simp add: js_of_column_def split: option.splits)

lemma status_message: "status (json_message code m) = code"
  by (simp add: json_message_def)

text \<open>Every response of the registration handler, and every response of the login handler.\<close>

lemma register_sent:
  assumes "fst (register L secret now salt req d) = Sent res"
  shows "(status res = 201 \<and>
          (\<exists>tok uid. json res =
             Obj [(''token'', Str tok),
                  (''user'', Obj [(''id'', Num uid), (''email'', req_body req ''email''),
                                 (''name'', req_body req ''name''),
                                 (''phone'', req_body req ''phone'')])])) \<or>
         (status res \<noteq> 201 \<and> (\<exists>code m. res = json_message code m))"
  using assms
  by (auto simp: register_def db_get_user_def Let_def status_message json_message_def
           split: if_splits option.splits sum.splits prod.splits)

lemma login_sent:
  assumes "fst (login L secret now req d) = Sent res"
  shows "(status res = 200 \<and>
          (\<exists>tok uid e n ph. json res =
             Obj [(''token'', Str tok),
                  (''user'', Obj [(''id'', Num uid), (''email'', Str e), (''name'', Str n),
                                 (''phone'', js_of_column ph)])])) \<or>
         (status res \<noteq> 200 \<and> (\<exists>code m. res = json_message code m))"
  using assms
  by (auto simp: login_def db_get_user_def Let_def status_message json_message_def
           split: if_splits option.splits sum.splits prod.splits)

lemma body_simps:
  "req_body (mk_request hs fs) k = (case map_of fs k of None \<Rightarrow> Undefined | Some v \<Rightarrow> v)"
  by (simp add: mk_request_def)

lemma alice_login_body:
  "req_body (alice_login pw) ''email'' = Str ''alice@example.com''"
  "req_body (alice_login pw) ''password'' = Str pw"
  by (simp_all add: alice_login_def mk_request_def)

lemma alice_login_number_body:
  "req_body alice_login_number ''email'' = Str ''alice@example.com''"
  "req_body alice_login_number ''password'' = Num 12345"
  by (simp_all add: alice_login_number_def mk_request_def)

lemma bob_request_body:
  "req_body bob_request ''email'' = Str ''bob@example.com''"
  "req_body bob_request ''password'' = Str ''hunter2''"
  "req_body bob_request ''name'' = Str ''Bob''"
  "req_body bob_request ''phone'' = Undefined"
  by (simp_all add: bob_request_def mk_request_def)

lemma mallory_request_body:
  "req_body mallory_request ''email'' = Str ''alice@example.com''"
  "req_body mallory_request ''password'' = Str ''letmein''"
  "req_body mallory_request ''name'' = Str ''Mallory''"
  by (simp_all add: mallory_request_def mk_request_def)

lemma alice_db_find:
  "find (\<lambda>u. u_email u = ''alice@example.com'') (users alice_db) = Some alice_row"
  "find (\<lambda>u. u_email u = ''bob@example.com'') (users alice_db) = None"
  "find (\<lambda>u. u_email u = ''ghost@example.com'') (users alice_db) = None"
  by (simp_all add: alice_db_def alice_row_def)

lemma alice_db_emails:
  "''alice@example.com'' \<in> set (map u_email (users alice_db))"
  "''bob@example.com'' \<notin> set (map u_email (users alice_db))"
  "''ghost@example.com'' \<notin> set (map u_email (users alice_db))"
  by (simp_all add: alice_db_def alice_row_def)

lemma alice_compare:
  "bcrypt_compare toy_libs ''pw12345'' (u_password alice_row)"
  "\<not> bcrypt_compare toy_libs ''wrongpw'' (u_password alice_row)"
  "\<not> bcrypt_compare toy_libs ''letmein'' (u_password alice_row)"
  by (simp_all add: toy_compare alice_row_def)

lemma register_calls:
  "snd (snd (register L secret now salt req d)) \<in>
     {[], [DbGet], [DbGet, BcryptHash], [DbGet, BcryptHash, DbRun],
      [DbGet, BcryptHash, DbRun, JwtSign]}"
  by (simp add: register_def db_get_user_def Let_def split: option.splits sum.splits prod.splits)

lemma register_known_email:
  assumes "bind_text L (req_body req ''email'') = Some e" "e \<in> set (map u_email (users d))"
  shows "(\<exists>res. fst (register L secret now salt req d) = Sent res \<and> status res = 400) \<and>
         fst (snd (register L secret now salt req d)) = d \<and>
         DbRun \<notin> set (snd (snd (register L secret now salt req d)))"
proof -
  obtain u where "find (\<lambda>u. u_email u = e) (users d) = Some u"
    using find_email_Some [OF assms(2)] by blast
  with assms(1) show ?thesis
    by (simp add: register_def db_get_user_def status_message Let_def)
qed

text \<open>
  Behind the middleware, whatever the body holds: a handler leaves its table as it was
  or adds one row, and the row carries the \<^verbatim>\<open>userId\<close> of \<^verbatim>\<open>req.user\<close>.
\<close>

lemma carpool_rides_handler_rows:
  assumes "req_user req = Some user"
  shows "carpool_rides (snd (carpool_rides_handler L now req d)) = carpool_rides d \<or>
         (\<exists>row. carpool_rides (snd (carpool_rides_handler L now req d)) = carpool_rides d @ [row] \<and>
                r_user_id row = userId user)"
  using assms
  by (simp add: carpool_rides_handler_def db_insert_ride_def Let_def split: option.splits)

lemma travel_plans_handler_rows:
  assumes "req_user req = Some user"
  shows "travel_plans (snd (travel_plans_handler L now req d)) = travel_plans d \<or>
         (\<exists>row. travel_plans (snd (travel_plans_handler L now req d)) = travel_plans d @ [row] \<and>
                t_user_id row = userId user)"
  using assms
  by (simp add: travel_plans_handler_def db_insert_plan_def Let_def split: option.splits)

text \<open>
  The JSON number 12345 as a password, under the instance: a registration under a new
  email and a login under a known one get no response, a login under an unknown email
  is answered 400.
\<close>

lemma register_number_password:
  "register toy_libs ''k'' 5 ''s''
     (mk_request [] [(''email'', Str ''bob@example.com''), (''password'', Num 12345),
                     (''name'', Str ''Bob'')])
     alice_db =
   (Crashed, alice_db, [DbGet, BcryptHash])"
  by (rule register_password_not_string)
     (simp_all add: body_simps falsy_js_simps db_get_user_Str alice_db_find)

lemma login_number_password:
  "login toy_libs ''k'' 5 alice_login_number alice_db = (Crashed, alice_db, [DbGet, BcryptCompare])"
  "login toy_libs ''k'' 5
     (mk_request [] [(''email'', Str ''ghost@example.com''), (''password'', Num 12345)]) alice_db =
   (Sent (json_message 400 ''Invalid credentials''), alice_db, [DbGet])"
proof -
  show "login toy_libs ''k'' 5 alice_login_number alice_db = (Crashed, alice_db, [DbGet, BcryptCompare])"
    by (rule login_password_not_string [where user = alice_row])
       (simp_all add: alice_login_number_body falsy_js_simps db_get_user_Str alice_db_find)
  show "login toy_libs ''k'' 5
     (mk_request [] [(''email'', Str ''ghost@example.com''), (''password'', Num 12345)]) alice_db =
   (Sent (json_message 400 ''Invalid credentials''), alice_db, [DbGet])"
    by (rule login_not_found)
       (simp_all add: body_simps falsy_js_simps db_get_user_Str alice_db_find)
qed

section \<open>The claims\<close>

text \<open>
  C1. Take libraries where \<^verbatim>\<open>bcrypt.compare\<close> accepts a password against its own digest
  and the token decoder inverts the encoder. A registration whose email, password and
  name are non-empty strings, under an email that no row of the table has, is answered
  201; a login with the same email and password against the resulting table is
  answered 200; and the token in the login response verifies under the same secret, at
  any moment from the login until 24 hours after it, to the new user's id and email.
  (Under an email the table has already, with another password, both steps are
  refused: see the instance after the theorem. What a registration does with a
  password that is not a string is \<open>register_password_not_string\<close> above.)
\<close>

theorem C1_register_then_login:
  "bcrypt_sound L \<and> jwt_roundtrip L \<and>
   req_body req ''email'' = Str e \<and> e \<noteq> [] \<and>
   req_body req ''password'' = Str pw \<and> pw \<noteq> [] \<and>
   req_body req ''name'' = Str n \<and> n \<noteq> [] \<and>
   e \<notin> set (map u_email (users d)) \<and>
   req_body req' ''email'' = Str e \<and> req_body req' ''password'' = Str pw \<and>
   now' \<le> t \<and> t < now' + 86400
     \<longrightarrow> (\<exists>res. fst (register L secret now salt req d) = Sent res \<and> status res = 201) \<and>
         (\<exists>res' tok.
            fst (login L secret now' req' (fst (snd (register L secret now salt req d)))) = Sent res' \<and>
            status res' = 200 \<and> response_token res' = Some tok \<and>
            jwt_verify L tok secret t =
              Inr \<lparr>userId = next_rowid (map u_id (users d)), email = Str e, iat = now',
                   exp = Some (now' + 86400)\<rparr>)"
proof (intro impI)
  assume a: "bcrypt_sound L \<and> jwt_roundtrip L \<and>
   req_body req ''email'' = Str e \<and> e \<noteq> [] \<and>
   req_body req ''password'' = Str pw \<and> pw \<noteq> [] \<and>
   req_body req ''name'' = Str n \<and> n \<noteq> [] \<and>
   e \<notin> set (map u_email (users d)) \<and>
   req_body req' ''email'' = Str e \<and> req_body req' ''password'' = Str pw \<and>
   now' \<le> t \<and> t < now' + 86400"
  define row where "row = \<lparr>u_id = next_rowid (map u_id (users d)), u_email = e,
                  u_password = bcrypt_hash L pw 10 salt, u_name = n,
                  u_phone = bind_text L (req_body req ''phone''), u_created_at = now\<rparr>"
  define p where "p = \<lparr>userId = next_rowid (map u_id (users d)), email = Str e, iat = now',
                       exp = Some (now' + 86400)\<rparr>"
  have reg: "\<exists>res. fst (register L secret now salt req d) = Sent res \<and> status res = 201"
    and d': "fst (snd (register L secret now salt req d)) = d\<lparr>users := users d @ [row]\<rparr>"
    using a by (simp_all add: register_fresh [where e = e and pw = pw and n = n] row_def)
  have found: "db_get_user (d\<lparr>users := users d @ [row]\<rparr>) (bind_text L (req_body req' ''email'')) =
               Inr (Some row)"
    using a by (simp add: db_get_user_Str find_email_new row_def)
  have cmp: "bcrypt_compare L pw (u_password row)"
    using a by (simp add: bcrypt_sound_def row_def)
  have log: "login L secret now' req' (d\<lparr>users := users d @ [row]\<rparr>) =
      (Sent \<lparr>status = 200,
             json = Obj [(''token'', Str (jwt_sign L (u_id row, Str (u_email row)) secret expiresIn_24h now')),
                         (''user'', Obj [(''id'', Num (int (u_id row))), (''email'', Str (u_email row)),
                                        (''name'', Str (u_name row)),
                                        (''phone'', js_of_column (u_phone row))])]\<rparr>,
       d\<lparr>users := users d @ [row]\<rparr>, [DbGet, BcryptCompare, JwtSign])"
    using a found cmp
    by (simp add: login_found [where pw = pw and user = row] falsy_js_simps)
  have tok: "jwt_sign L (u_id row, Str (u_email row)) secret expiresIn_24h now' =
             jwt_encode L p (hmac L secret p)"
    by (simp add: jwt_sign_def expiresIn_24h_def Let_def p_def row_def)
  have ver: "jwt_verify L (jwt_encode L p (hmac L secret p)) secret t = Inr p"
    using a by (simp add: jwt_verify_def jwt_roundtrip_def p_def)
  have "\<exists>res' tok.
            fst (login L secret now' req' (fst (snd (register L secret now salt req d)))) = Sent res' \<and>
            status res' = 200 \<and> response_token res' = Some tok \<and>
            jwt_verify L tok secret t = Inr p"
    using ver by (simp add: d' log response_token_def tok)
  with reg show "(\<exists>res. fst (register L secret now salt req d) = Sent res \<and> status res = 201) \<and>
         (\<exists>res' tok.
            fst (login L secret now' req' (fst (snd (register L secret now salt req d)))) = Sent res' \<and>
            status res' = 200 \<and> response_token res' = Some tok \<and>
            jwt_verify L tok secret t =
              Inr \<lparr>userId = next_rowid (map u_id (users d)), email = Str e, iat = now',
                   exp = Some (now' + 86400)\<rparr>)"
    by (simp add: p_def)
qed

theorem C1_witness:
  "(\<exists>res. fst (register toy_libs ''k'' 5 ''s'' bob_request alice_db) = Sent res \<and> status res = 201) \<and>
   (\<exists>res' tok.
      fst (login toy_libs ''k'' 7 bob_request
             (fst (snd (register toy_libs ''k'' 5 ''s'' bob_request alice_db)))) = Sent res' \<and>
      status res' = 200 \<and> response_token res' = Some tok \<and>
      jwt_verify toy_libs tok ''k'' 7 =
        Inr \<lparr>userId = 2, email = Str ''bob@example.com'', iat = 7, exp = Some 86407\<rparr>)"
proof -
  have b: "req_body bob_request ''email'' = Str ''bob@example.com'' \<and> ''bob@example.com'' \<noteq> [] \<and>
           req_body bob_request ''password'' = Str ''hunter2'' \<and> ''hunter2'' \<noteq> [] \<and>
           req_body bob_request ''name'' = Str ''Bob'' \<and> ''Bob'' \<noteq> []"
    by (simp add: bob_request_body)
  have t: "(7::nat) \<le> 7 \<and> (7::nat) < 7 + 86400"
    by simp
  have n: "next_rowid (map u_id (users alice_db)) = 2"
    by (simp add: next_rowid_def alice_db_def alice_row_def)
  from C1_register_then_login [where L = toy_libs and req = bob_request and e = "''bob@example.com''"
          and pw = "''hunter2''" and n = "''Bob''" and d = alice_db and req' = bob_request
          and now' = 7 and t = 7 and secret = "''k''" and now = 5 and salt = "''s''"]
       toy_bcrypt toy_roundtrip alice_db_emails(2) b t
  have "(\<exists>res. fst (register toy_libs ''k'' 5 ''s'' bob_request alice_db) = Sent res \<and> status res = 201) \<and>
   (\<exists>res' tok.
      fst (login toy_libs ''k'' 7 bob_request
             (fst (snd (register toy_libs ''k'' 5 ''s'' bob_request alice_db)))) = Sent res' \<and>
      status res' = 200 \<and> response_token res' = Some tok \<and>
      jwt_verify toy_libs tok ''k'' 7 =
        Inr \<lparr>userId = next_rowid (map u_id (users alice_db)), email = Str ''bob@example.com'', iat = 7,
             exp = Some (7 + 86400)\<rparr>)"
    by blast
  then show ?thesis
    by (simp add: n)
qed

text \<open>
  Without the condition on the table the statement fails. The one-user table holds
  \<^verbatim>\<open>alice@example.com\<close>; a registration under that email with another password passes
  the presence check and is answered 400 \<^verbatim>\<open>User already exists\<close>, and the login that
  follows with the same email and password is answered 400 \<^verbatim>\<open>Invalid credentials\<close>.
\<close>

theorem C1_counterexample:
  "bcrypt_sound toy_libs \<and> jwt_roundtrip toy_libs \<and>
   \<not> falsy_js (req_body mallory_request ''email'') \<and>
   \<not> falsy_js (req_body mallory_request ''password'') \<and>
   \<not> falsy_js (req_body mallory_request ''name'') \<and>
   register toy_libs ''k'' 5 ''s'' mallory_request alice_db =
     (Sent (json_message 400 ''User already exists''), alice_db, [DbGet]) \<and>
   login toy_libs ''k'' 6 mallory_request alice_db =
     (Sent (json_message 400 ''Invalid credentials''), alice_db, [DbGet, BcryptCompare])"
proof -
  have f: "db_get_user alice_db (bind_text toy_libs (req_body mallory_request ''email'')) =
           Inr (Some alice_row)"
    by (simp add: mallory_request_body db_get_user_Str alice_db_find)
  have r: "register toy_libs ''k'' 5 ''s'' mallory_request alice_db =
     (Sent (json_message 400 ''User already exists''), alice_db, [DbGet])"
    by (rule register_found [OF _ _ _ f]) (simp_all add: mallory_request_body falsy_js_simps)
  have l: "login toy_libs ''k'' 6 mallory_request alice_db =
     (Sent (json_message 400 ''Invalid credentials''), alice_db, [DbGet, BcryptCompare])"
    using login_found [where req = mallory_request and pw = "''letmein''" and d = alice_db
                         and L = toy_libs and user = alice_row and secret = "''k''" and now = 6] f
    by (simp add: mallory_request_body falsy_js_simps alice_compare)
  show ?thesis
    using toy_bcrypt toy_roundtrip r l by (simp add: mallory_request_body falsy_js_simps)
qed

text \<open>
  C2. A successful registration (201) answers with exactly the fields \<^verbatim>\<open>token\<close> and
  \<^verbatim>\<open>user\<close>, the latter with exactly \<^verbatim>\<open>id\<close>, \<^verbatim>\<open>email\<close>, \<^verbatim>\<open>name\<close> and \<^verbatim>\<open>phone\<close>, the last
  three being the values of the request body; a successful login (200) answers with
  the same six field names, the values read from the row: the \<^verbatim>\<open>password\<close> and
  \<^verbatim>\<open>created_at\<close> columns are not copied. No response of the login handler has a field
  named \<^verbatim>\<open>password\<close> anywhere in its body, and none of the registration handler has
  one unless the client sent it inside the email, name or phone value that is echoed.
  (A field whose value is \<^verbatim>\<open>undefined\<close> is dropped when the body is serialised.)
\<close>

theorem C2_no_password_field:
  "(fst (register L secret now salt req d) = Sent res \<and> status res = 201
      \<longrightarrow> (\<exists>tok uid. json res =
             Obj [(''token'', Str tok),
                  (''user'', Obj [(''id'', Num uid), (''email'', req_body req ''email''),
                                 (''name'', req_body req ''name''),
                                 (''phone'', req_body req ''phone'')])])) \<and>
   (fst (register L secret now salt req d) = Sent res \<and>
    ''password'' \<notin> set (keys_of (req_body req ''email'')) \<and>
    ''password'' \<notin> set (keys_of (req_body req ''name'')) \<and>
    ''password'' \<notin> set (keys_of (req_body req ''phone''))
      \<longrightarrow> ''password'' \<notin> set (keys_of (json res))) \<and>
   (fst (register L secret now salt req d) = Sent res \<and> status res = 201 \<and>
    keys_of (req_body req ''email'') = [] \<and> keys_of (req_body req ''name'') = [] \<and>
    keys_of (req_body req ''phone'') = []
      \<longrightarrow> keys_of (json res) = [''token'', ''user'', ''id'', ''email'', ''name'', ''phone'']) \<and>
   (fst (login L secret now req d) = Sent res' \<longrightarrow> ''password'' \<notin> set (keys_of (json res'))) \<and>
   (fst (login L secret now req d) = Sent res' \<and> status res' = 200
      \<longrightarrow> keys_of (json res') = [''token'', ''user'', ''id'', ''email'', ''name'', ''phone''])"
proof (intro conjI impI)
  assume a: "fst (register L secret now salt req d) = Sent res \<and> status res = 201"
  then show "\<exists>tok uid. json res =
             Obj [(''token'', Str tok),
                  (''user'', Obj [(''id'', Num uid), (''email'', req_body req ''email''),
                                 (''name'', req_body req ''name''),
                                 (''phone'', req_body req ''phone'')])]"
    using register_sent [of L secret now salt req d res] by blast
next
  assume a: "fst (register L secret now salt req d) = Sent res \<and>
    ''password'' \<notin> set (keys_of (req_body req ''email'')) \<and>
    ''password'' \<notin> set (keys_of (req_body req ''name'')) \<and>
    ''password'' \<notin> set (keys_of (req_body req ''phone''))"
  then consider
      (ok) tok uid where "json res =
             Obj [(''token'', Str tok),
                  (''user'', Obj [(''id'', Num uid), (''email'', req_body req ''email''),
                                 (''name'', req_body req ''name''),
                                 (''phone'', req_body req ''phone'')])]"
    | (msg) code m where "res = json_message code m"
    using register_sent [of L secret now salt req d res] by blast
  then show "''password'' \<notin> set (keys_of (json res))"
  proof cases
    case ok
    with a show ?thesis by simp
  next
    case msg
    then show ?thesis by (simp add: keys_of_message)
  qed
next
  assume a: "fst (register L secret now salt req d) = Sent res \<and> status res = 201 \<and>
    keys_of (req_body req ''email'') = [] \<and> keys_of (req_body req ''name'') = [] \<and>
    keys_of (req_body req ''phone'') = []"
  then obtain tok uid where "json res =
             Obj [(''token'', Str tok),
                  (''user'', Obj [(''id'', Num uid), (''email'', req_body req ''email''),
                                 (''name'', req_body req ''name''),
                                 (''phone'', req_body req ''phone'')])]"
    using register_sent [of L secret now salt req d res] by blast
  with a show "keys_of (json res) = [''token'', ''user'', ''id'', ''email'', ''name'', ''phone'']"
    by simp
next
  assume a: "fst (login L secret now req d) = Sent res'"
  then consider
      (ok) tok uid e n ph where "json res' =
             Obj [(''token'', Str tok),
                  (''user'', Obj [(''id'', Num uid), (''email'', Str e), (''name'', Str n),
                                 (''phone'', js_of_column ph)])]"
    | (msg) code m where "res' = json_message code m"
    using login_sent [of L secret now req d res'] by blast
  then show "''password'' \<notin> set (keys_of (json res'))"
  proof cases
    case ok
    then show ?thesis by (simp add: keys_of_column)
  next
    case msg
    then show ?thesis by (simp add: keys_of_message)
  qed
next
  assume a: "fst (login L secret now req d) = Sent res' \<and> status res' = 200"
  then obtain tok uid e n ph where "json res' =
             Obj [(''token'', Str tok),
                  (''user'', Obj [(''id'', Num uid), (''email'', Str e), (''name'', Str n),
                                 (''phone'', js_of_column ph)])]"
    using login_sent [of L secret now req d res'] by blast
  then show "keys_of (json res') = [''token'', ''user'', ''id'', ''email'', ''name'', ''phone'']"
    by (simp add: keys_of_column)
qed

theorem C2_witness:
  "(\<exists>res. fst (register toy_libs ''k'' 5 ''s'' bob_request alice_db) = Sent res \<and> status res = 201 \<and>
          keys_of (json res) = [''token'', ''user'', ''id'', ''email'', ''name'', ''phone'']) \<and>
   (\<exists>res'. fst (login toy_libs ''k'' 5 (alice_login ''pw12345'') alice_db) = Sent res' \<and>
           status res' = 200 \<and>
           keys_of (json res') = [''token'', ''user'', ''id'', ''email'', ''name'', ''phone''])"
proof -
  have "\<exists>res. fst (register toy_libs ''k'' 5 ''s'' bob_request alice_db) = Sent res \<and> status res = 201"
    using register_fresh [where L = toy_libs and secret = "''k''" and now = 5 and salt = "''s''",
            OF bob_request_body(1) _ bob_request_body(2) _ bob_request_body(3) _ alice_db_emails(2)]
    by simp
  then obtain res where r: "fst (register toy_libs ''k'' 5 ''s'' bob_request alice_db) = Sent res"
      and rs: "status res = 201"
    by blast
  have f: "db_get_user alice_db (bind_text toy_libs (req_body (alice_login ''pw12345'') ''email'')) =
           Inr (Some alice_row)"
    by (simp add: alice_login_body db_get_user_Str alice_db_find)
  obtain res' where l: "fst (login toy_libs ''k'' 5 (alice_login ''pw12345'') alice_db) = Sent res'"
      and ls: "status res' = 200"
    using login_found [where req = "alice_login ''pw12345''" and pw = "''pw12345''" and d = alice_db
                         and L = toy_libs and user = alice_row and secret = "''k''" and now = 5] f
    by (simp add: alice_login_body falsy_js_simps alice_compare)
  have k: "keys_of (req_body bob_request ''email'') = [] \<and> keys_of (req_body bob_request ''name'') = [] \<and>
           keys_of (req_body bob_request ''phone'') = []"
    by (simp add: bob_request_body)
  have "keys_of (json res) = [''token'', ''user'', ''id'', ''email'', ''name'', ''phone'']"
    using C2_no_password_field [where L = toy_libs and secret = "''k''" and now = 5 and salt = "''s''"
            and req = bob_request and d = alice_db and res = res, THEN conjunct2, THEN conjunct2,
            THEN conjunct1] r rs k
    by (simp only: simp_thms)
  moreover have "keys_of (json res') = [''token'', ''user'', ''id'', ''email'', ''name'', ''phone'']"
    using C2_no_password_field [where L = toy_libs and secret = "''k''" and now = 5
            and req = "alice_login ''pw12345''" and d = alice_db and res' = res',
            THEN conjunct2, THEN conjunct2, THEN conjunct2, THEN conjunct2] l ls
    by (simp only: simp_thms)
  ultimately show ?thesis
    using r rs l ls by blast
qed

text \<open>
  C3. Take two logins that both pass the presence check. One is under an email for
  which the lookup finds no row; the other is under an email for which it finds a row,
  with a password that is a string and that \<^verbatim>\<open>bcrypt.compare\<close> does not accept against
  the row's digest. Each is answered 400 with the message \<^verbatim>\<open>Invalid credentials\<close>: the
  two responses are equal. (A login with a missing field is answered by the presence
  check first, with another message, whether its email is known or not: see the
  instance after the theorem. What a login under a known email does with a password that
  is not a string is \<open>login_password_not_string\<close> above.)
\<close>

theorem C3_invalid_credentials_uniform:
  "\<not> falsy_js (req_body r1 ''email'') \<and> \<not> falsy_js (req_body r1 ''password'') \<and>
   db_get_user d (bind_text L (req_body r1 ''email'')) = Inr None \<and>
   \<not> falsy_js (req_body r2 ''email'') \<and> req_body r2 ''password'' = Str p2 \<and> p2 \<noteq> [] \<and>
   db_get_user d (bind_text L (req_body r2 ''email'')) = Inr (Some u) \<and>
   \<not> bcrypt_compare L p2 (u_password u)
     \<longrightarrow> fst (login L secret n1 r1 d) = Sent (json_message 400 ''Invalid credentials'') \<and>
         fst (login L secret n2 r2 d) = fst (login L secret n1 r1 d)"
  by (simp add: login_not_found login_found)

theorem C3_witness:
  "fst (login toy_libs ''k'' 5
          (mk_request [] [(''email'', Str ''ghost@example.com''), (''password'', Num 12345)]) alice_db) =
     Sent (json_message 400 ''Invalid credentials'') \<and>
   fst (login toy_libs ''k'' 6 (alice_login ''wrongpw'') alice_db) =
   fst (login toy_libs ''k'' 5
          (mk_request [] [(''email'', Str ''ghost@example.com''), (''password'', Num 12345)]) alice_db)"
proof -
  let ?g = "mk_request [] [(''email'', Str ''ghost@example.com''), (''password'', Num 12345)]"
  have g: "\<not> falsy_js (req_body ?g ''email'') \<and> \<not> falsy_js (req_body ?g ''password'') \<and>
           db_get_user alice_db (bind_text toy_libs (req_body ?g ''email'')) = Inr None"
    by (simp add: body_simps falsy_js_simps db_get_user_Str alice_db_find)
  have a: "\<not> falsy_js (req_body (alice_login ''wrongpw'') ''email'') \<and>
           req_body (alice_login ''wrongpw'') ''password'' = Str ''wrongpw'' \<and> ''wrongpw'' \<noteq> [] \<and>
           db_get_user alice_db (bind_text toy_libs (req_body (alice_login ''wrongpw'') ''email'')) =
             Inr (Some alice_row) \<and>
           \<not> bcrypt_compare toy_libs ''wrongpw'' (u_password alice_row)"
    by (simp add: alice_login_body falsy_js_simps db_get_user_Str alice_db_find alice_compare)
  from C3_invalid_credentials_uniform
          [where ?r1.0 = ?g and ?r2.0 = "alice_login ''wrongpw''" and ?p2.0 = "''wrongpw''"
             and d = alice_db and u = alice_row and L = toy_libs
             and secret = "''k''" and ?n1.0 = 5 and ?n2.0 = 6] g a
  show ?thesis by blast
qed

text \<open>
  Without the presence condition the statement fails. A login under an unknown email
  with an empty password is answered \<^verbatim>\<open>Email and password are required\<close>, a login under
  a known email with a wrong password \<^verbatim>\<open>Invalid credentials\<close>: the two differ.
\<close>

theorem C3_counterexample:
  "''ghost@example.com'' \<notin> set (map u_email (users alice_db)) \<and>
   find (\<lambda>u. u_email u = ''alice@example.com'') (users alice_db) = Some alice_row \<and>
   \<not> bcrypt_compare toy_libs ''wrongpw'' (u_password alice_row) \<and>
   fst (login toy_libs ''k'' 5
          (mk_request [] [(''email'', Str ''ghost@example.com''), (''password'', Str [])]) alice_db) =
     Sent (json_message 400 ''Email and password are required'') \<and>
   fst (login toy_libs ''k'' 5 (alice_login ''wrongpw'') alice_db) =
     Sent (json_message 400 ''Invalid credentials'') \<and>
   fst (login toy_libs ''k'' 5
          (mk_request [] [(''email'', Str ''ghost@example.com''), (''password'', Str [])]) alice_db) \<noteq>
   fst (login toy_libs ''k'' 5 (alice_login ''wrongpw'') alice_db)"
proof -
  have a: "fst (login toy_libs ''k'' 5
                  (mk_request [] [(''email'', Str ''ghost@example.com''), (''password'', Str [])]) alice_db) =
           Sent (json_message 400 ''Email and password are required'')"
    by (simp add: login_def body_simps falsy_js_simps)
  have f: "db_get_user alice_db (bind_text toy_libs (req_body (alice_login ''wrongpw'') ''email'')) =
           Inr (Some alice_row)"
    by (simp add: alice_login_body db_get_user_Str alice_db_find)
  have b: "fst (login toy_libs ''k'' 5 (alice_login ''wrongpw'') alice_db) =
           Sent (json_message 400 ''Invalid credentials'')"
    using login_found [where req = "alice_login ''wrongpw''" and pw = "''wrongpw''" and d = alice_db
                         and L = toy_libs and user = alice_row and secret = "''k''" and now = 5] f
    by (simp add: alice_login_body falsy_js_simps alice_compare)
  show ?thesis
    using alice_db_find alice_db_emails alice_compare
    by (simp add: a b json_message_def)
qed

text \<open>
  C4. A registration that passes the presence check, under an email that a row of the
  table has already, is answered 400 \<^verbatim>\<open>User already exists\<close> after the lookup alone: the
  table is unchanged and neither the hash nor the insert is called, whatever the
  password is. Any registration under a known email, valid or not, is answered 400 and
  leaves the table as it was. In every run the calls are an initial part of lookup,
  hash, insert, sign: the lookup comes before the insert. (A registration under a known
  email that lacks a field is answered by the presence check, with its message: see the
  instance after the theorem.)
\<close>

theorem C4_duplicate_email:
  "(bind_text L (req_body req ''email'') = Some e \<and> \<not> falsy_js (req_body req ''email'') \<and>
    \<not> falsy_js (req_body req ''password'') \<and> \<not> falsy_js (req_body req ''name'') \<and>
    e \<in> set (map u_email (users d))
      \<longrightarrow> register L secret now salt req d =
            (Sent (json_message 400 ''User already exists''), d, [DbGet])) \<and>
   (bind_text L (req_body req ''email'') = Some e \<and> e \<in> set (map u_email (users d))
      \<longrightarrow> (\<exists>res. fst (register L secret now salt req d) = Sent res \<and> status res = 400) \<and>
          fst (snd (register L secret now salt req d)) = d \<and>
          DbRun \<notin> set (snd (snd (register L secret now salt req d)))) \<and>
   snd (snd (register L secret now salt req d)) \<in>
     {[], [DbGet], [DbGet, BcryptHash], [DbGet, BcryptHash, DbRun],
      [DbGet, BcryptHash, DbRun, JwtSign]}"
proof (intro conjI impI)
  assume a: "bind_text L (req_body req ''email'') = Some e \<and> \<not> falsy_js (req_body req ''email'') \<and>
    \<not> falsy_js (req_body req ''password'') \<and> \<not> falsy_js (req_body req ''name'') \<and>
    e \<in> set (map u_email (users d))"
  then obtain u where "find (\<lambda>u. u_email u = e) (users d) = Some u"
    using find_email_Some [of e "users d"] by blast
  with a have "db_get_user d (bind_text L (req_body req ''email'')) = Inr (Some u)"
    by (simp add: db_get_user_def)
  with a show "register L secret now salt req d =
                 (Sent (json_message 400 ''User already exists''), d, [DbGet])"
    by (simp add: register_found)
next
  assume b: "bind_text L (req_body req ''email'') = Some e \<and> e \<in> set (map u_email (users d))"
  then show "\<exists>res. fst (register L secret now salt req d) = Sent res \<and> status res = 400"
    and "fst (snd (register L secret now salt req d)) = d"
    and "DbRun \<notin> set (snd (snd (register L secret now salt req d)))"
    using register_known_email [of L req e d secret now salt] by simp_all
next
  show "snd (snd (register L secret now salt req d)) \<in>
     {[], [DbGet], [DbGet, BcryptHash], [DbGet, BcryptHash, DbRun],
      [DbGet, BcryptHash, DbRun, JwtSign]}"
    by (rule register_calls)
qed

theorem C4_witness:
  "register toy_libs ''k'' 5 ''s'' mallory_request alice_db =
     (Sent (json_message 400 ''User already exists''), alice_db, [DbGet]) \<and>
   register toy_libs ''k'' 5 ''s''
     (mk_request [] [(''email'', Str ''alice@example.com''), (''password'', Str ''pw12345''),
                     (''name'', Str ''Alice'')])
     alice_db =
     (Sent (json_message 400 ''User already exists''), alice_db, [DbGet]) \<and>
   register toy_libs ''k'' 5 ''s''
     (mk_request [] [(''email'', Str ''alice@example.com''), (''password'', Num 12345),
                     (''name'', Str ''Alice'')])
     alice_db =
     (Sent (json_message 400 ''User already exists''), alice_db, [DbGet])"
proof -
  let ?again = "mk_request [] [(''email'', Str ''alice@example.com''), (''password'', Str ''pw12345''),
                               (''name'', Str ''Alice'')]"
  let ?number = "mk_request [] [(''email'', Str ''alice@example.com''), (''password'', Num 12345),
                                (''name'', Str ''Alice'')]"
  have m: "bind_text toy_libs (req_body mallory_request ''email'') = Some ''alice@example.com'' \<and>
           \<not> falsy_js (req_body mallory_request ''email'') \<and>
           \<not> falsy_js (req_body mallory_request ''password'') \<and>
           \<not> falsy_js (req_body mallory_request ''name'')"
    by (simp add: mallory_request_body falsy_js_simps bind_text_simps)
  have a: "bind_text toy_libs (req_body ?again ''email'') = Some ''alice@example.com'' \<and>
           \<not> falsy_js (req_body ?again ''email'') \<and>
           \<not> falsy_js (req_body ?again ''password'') \<and> \<not> falsy_js (req_body ?again ''name'')"
    by (simp add: body_simps falsy_js_simps bind_text_simps)
  have n: "bind_text toy_libs (req_body ?number ''email'') = Some ''alice@example.com'' \<and>
           \<not> falsy_js (req_body ?number ''email'') \<and>
           \<not> falsy_js (req_body ?number ''password'') \<and> \<not> falsy_js (req_body ?number ''name'')"
    by (simp add: body_simps falsy_js_simps bind_text_simps)
  have k: "''alice@example.com'' \<in> set (map u_email (users alice_db))"
    by (rule alice_db_emails(1))
  have 1: "register toy_libs ''k'' 5 ''s'' mallory_request alice_db =
             (Sent (json_message 400 ''User already exists''), alice_db, [DbGet])"
    using C4_duplicate_email [where req = mallory_request and e = "''alice@example.com''" and d = alice_db
            and L = toy_libs and secret = "''k''" and now = 5 and salt = "''s''", THEN conjunct1] m k
    by (simp only: simp_thms)
  have 2: "register toy_libs ''k'' 5 ''s'' ?again alice_db =
             (Sent (json_message 400 ''User already exists''), alice_db, [DbGet])"
    using C4_duplicate_email [where req = ?again and e = "''alice@example.com''" and d = alice_db
            and L = toy_libs and secret = "''k''" and now = 5 and salt = "''s''", THEN conjunct1] a k
    by (simp only: simp_thms)
  have 3: "register toy_libs ''k'' 5 ''s'' ?number alice_db =
             (Sent (json_message 400 ''User already exists''), alice_db, [DbGet])"
    using C4_duplicate_email [where req = ?number and e = "''alice@example.com''" and d = alice_db
            and L = toy_libs and secret = "''k''" and now = 5 and salt = "''s''", THEN conjunct1] n k
    by (simp only: simp_thms)
  from 1 2 3 show ?thesis by (simp only: simp_thms)
qed

text \<open>
  Without the presence condition the statement fails. A registration under a known
  email with an empty name is answered \<^verbatim>\<open>Email, password, and name are required\<close>
  before any lookup, not \<^verbatim>\<open>User already exists\<close>.
\<close>

theorem C4_counterexample:
  "''alice@example.com'' \<in> set (map u_email (users alice_db)) \<and>
   register toy_libs ''k'' 5 ''s''
     (mk_request [] [(''email'', Str ''alice@example.com''), (''password'', Str ''pw12345''),
                     (''name'', Str [])])
     alice_db =
     (Sent (json_message 400 ''Email, password, and name are required''), alice_db, []) \<and>
   json_message 400 ''Email, password, and name are required'' \<noteq> json_message 400 ''User already exists''"
  using alice_db_emails(1)
  by (simp add: register_def body_simps falsy_js_simps json_message_def)

text \<open>
  C5. A registration whose email, password or name is missing (absent, or a value that
  \<^verbatim>\<open>!\<close> takes for false: the empty string, \<^verbatim>\<open>null\<close>, \<^verbatim>\<open>0\<close>, \<^verbatim>\<open>false\<close>) is answered 400
  \<^verbatim>\<open>Email, password, and name are required\<close>; a login whose email or password is missing
  is answered 400 \<^verbatim>\<open>Email and password are required\<close>. In both cases the database is
  left as it was and no call is made: no lookup, no hashing, no insert.
\<close>

theorem C5_missing_fields:
  "(falsy_js (req_body req ''email'') \<or> falsy_js (req_body req ''password'') \<or>
    falsy_js (req_body req ''name'')
      \<longrightarrow> register L secret now salt req d =
            (Sent (json_message 400 ''Email, password, and name are required''), d, [])) \<and>
   (falsy_js (req_body req ''email'') \<or> falsy_js (req_body req ''password'')
      \<longrightarrow> login L secret now req d =
            (Sent (json_message 400 ''Email and password are required''), d, []))"
  by (simp add: register_def login_def)

theorem C5_witness:
  "falsy_js (req_body (mk_request [] [(''email'', Str ''alice@example.com''), (''password'', Str [])]) ''password'') \<and>
   falsy_js (req_body (mk_request [] [(''email'', Str ''alice@example.com''), (''password'', Str [])]) ''name'') \<and>
   register toy_libs ''k'' 5 ''s'' (mk_request [] [(''email'', Str ''alice@example.com''), (''password'', Str [])]) alice_db =
     (Sent (json_message 400 ''Email, password, and name are required''), alice_db, []) \<and>
   login toy_libs ''k'' 5 (mk_request [] [(''email'', Str ''alice@example.com''), (''password'', Str [])]) alice_db =
     (Sent (json_message 400 ''Email and password are required''), alice_db, [])"
  using C5_missing_fields [of "mk_request [] [(''email'', Str ''alice@example.com''), (''password'', Str [])]"
                              toy_libs "''k''" 5 "''s''" alice_db]
  by (simp add: body_simps falsy_js_simps)

text \<open>
  C6. The middleware answers 401 \<^verbatim>\<open>Access token required\<close> when the request has no
  authorization header or the header carries no token, and 403 \<^verbatim>\<open>Invalid token\<close> when
  \<^verbatim>\<open>jwt.verify\<close> fails on the token. When verification succeeds it passes the request
  on with \<^verbatim>\<open>req.user\<close> set to the decoded payload, and a ride or a travel plan created
  by the handler behind it carries that payload's \<^verbatim>\<open>userId\<close> as its \<^verbatim>\<open>user_id\<close>,
  whatever the body of the request holds: the handler leaves its table as it was or adds
  one row with that \<^verbatim>\<open>user_id\<close>. (The row is added, and the answer is 201, when the
  required fields pass the handler's presence check and bind to values that are not
  NULL, as every non-empty string does.)
\<close>

theorem C6_authorize:
  "(req_headers req ''authorization'' = None \<or> falsy (header_token req)
      \<longrightarrow> authenticateToken L secret now req = Inl (json_message 401 ''Access token required'')) \<and>
   (header_token req = Some tok \<and> tok \<noteq> [] \<and> jwt_verify L tok secret now = Inl err
      \<longrightarrow> authenticateToken L secret now req = Inl (json_message 403 ''Invalid token'')) \<and>
   (header_token req = Some tok \<and> tok \<noteq> [] \<and> jwt_verify L tok secret now = Inr user
      \<longrightarrow> authenticateToken L secret now req = Inr (req\<lparr>req_user := Some user\<rparr>) \<and>
          (carpool_rides (snd (post_carpool_rides L secret now req d)) = carpool_rides d \<or>
           (\<exists>row. carpool_rides (snd (post_carpool_rides L secret now req d)) = carpool_rides d @ [row] \<and>
                  r_user_id row = userId user)) \<and>
          (travel_plans (snd (post_travel_plans L secret now req d)) = travel_plans d \<or>
           (\<exists>row. travel_plans (snd (post_travel_plans L secret now req d)) = travel_plans d @ [row] \<and>
                  t_user_id row = userId user)) \<and>
          (\<not> falsy_js (req_body req ''origin'') \<and> bind_text L (req_body req ''origin'') \<noteq> None \<and>
           \<not> falsy_js (req_body req ''destination'') \<and>
           bind_text L (req_body req ''destination'') \<noteq> None \<and>
           \<not> falsy_js (req_body req ''departure_time'') \<and>
           bind_text L (req_body req ''departure_time'') \<noteq> None \<and>
           \<not> falsy_js (req_body req ''available_seats'') \<and>
           bind_text L (req_body req ''available_seats'') \<noteq> None
             \<longrightarrow> status (fst (post_carpool_rides L secret now req d)) = 201 \<and>
                 (\<exists>row. carpool_rides (snd (post_carpool_rides L secret now req d)) = carpool_rides d @ [row] \<and>
                        r_user_id row = userId user)) \<and>
          (\<not> falsy_js (req_body req ''destination'') \<and>
           bind_text L (req_body req ''destination'') \<noteq> None \<and>
           \<not> falsy_js (req_body req ''start_date'') \<and>
           bind_text L (req_body req ''start_date'') \<noteq> None \<and>
           \<not> falsy_js (req_body req ''end_date'') \<and>
           bind_text L (req_body req ''end_date'') \<noteq> None
             \<longrightarrow> status (fst (post_travel_plans L secret now req d)) = 201 \<and>
                 (\<exists>row. travel_plans (snd (post_travel_plans L secret now req d)) = travel_plans d @ [row] \<and>
                        t_user_id row = userId user)))"
proof (intro conjI impI)
  assume "req_headers req ''authorization'' = None \<or> falsy (header_token req)"
  then have "falsy (header_token req)"
    by (auto simp: header_token_def falsy_simps)
  then show "authenticateToken L secret now req = Inl (json_message 401 ''Access token required'')"
    by (simp add: authenticateToken_def)
next
  assume "header_token req = Some tok \<and> tok \<noteq> [] \<and> jwt_verify L tok secret now = Inl err"
  then show "authenticateToken L secret now req = Inl (json_message 403 ''Invalid token'')"
    by (simp add: authenticate_cases)
next
  assume a: "header_token req = Some tok \<and> tok \<noteq> [] \<and> jwt_verify L tok secret now = Inr user"
  then show ok: "authenticateToken L secret now req = Inr (req\<lparr>req_user := Some user\<rparr>)"
    by (simp add: authenticate_cases)
  show "carpool_rides (snd (post_carpool_rides L secret now req d)) = carpool_rides d \<or>
           (\<exists>row. carpool_rides (snd (post_carpool_rides L secret now req d)) = carpool_rides d @ [row] \<and>
                  r_user_id row = userId user)"
    using carpool_rides_handler_rows [of "req\<lparr>req_user := Some user\<rparr>" user L now d]
    by (simp add: post_carpool_rides_def ok)
  show "travel_plans (snd (post_travel_plans L secret now req d)) = travel_plans d \<or>
           (\<exists>row. travel_plans (snd (post_travel_plans L secret now req d)) = travel_plans d @ [row] \<and>
                  t_user_id row = userId user)"
    using travel_plans_handler_rows [of "req\<lparr>req_user := Some user\<rparr>" user L now d]
    by (simp add: post_travel_plans_def ok)
  {
    assume "\<not> falsy_js (req_body req ''origin'') \<and> bind_text L (req_body req ''origin'') \<noteq> None \<and>
           \<not> falsy_js (req_body req ''destination'') \<and>
           bind_text L (req_body req ''destination'') \<noteq> None \<and>
           \<not> falsy_js (req_body req ''departure_time'') \<and>
           bind_text L (req_body req ''departure_time'') \<noteq> None \<and>
           \<not> falsy_js (req_body req ''available_seats'') \<and>
           bind_text L (req_body req ''available_seats'') \<noteq> None"
    then obtain o' de' dt' av' where
      b: "bind_text L (req_body req ''origin'') = Some o'"
         "bind_text L (req_body req ''destination'') = Some de'"
         "bind_text L (req_body req ''departure_time'') = Some dt'"
         "bind_text L (req_body req ''available_seats'') = Some av'"
      and f: "\<not> falsy_js (req_body req ''origin'')" "\<not> falsy_js (req_body req ''destination'')"
             "\<not> falsy_js (req_body req ''departure_time'')"
             "\<not> falsy_js (req_body req ''available_seats'')"
      by auto
    then have r: "post_carpool_rides L secret now req d =
        (\<lparr>status = 201, json = Obj [(''id'', Num (int (next_rowid (map r_id (carpool_rides d))))),
                                     (''message'', Str ''Ride created successfully'')]\<rparr>,
         d\<lparr>carpool_rides := carpool_rides d @
              [\<lparr>r_id = next_rowid (map r_id (carpool_rides d)), r_user_id = userId user,
                r_origin = o', r_destination = de', r_departure_time = dt',
                r_available_seats = av',
                r_price_per_seat = bind_text L (req_body req ''price_per_seat''),
                r_description = bind_text L (req_body req ''description''),
                r_status = ''active'', r_created_at = now\<rparr>]\<rparr>)"
      by (simp add: post_carpool_rides_def ok carpool_rides_handler_def db_insert_ride_def Let_def)
    show "status (fst (post_carpool_rides L secret now req d)) = 201"
      by (simp add: r)
    show "\<exists>row. carpool_rides (snd (post_carpool_rides L secret now req d)) = carpool_rides d @ [row] \<and>
                r_user_id row = userId user"
      by (simp add: r)
  }
  {
    assume "\<not> falsy_js (req_body req ''destination'') \<and>
           bind_text L (req_body req ''destination'') \<noteq> None \<and>
           \<not> falsy_js (req_body req ''start_date'') \<and>
           bind_text L (req_body req ''start_date'') \<noteq> None \<and>
           \<not> falsy_js (req_body req ''end_date'') \<and>
           bind_text L (req_body req ''end_date'') \<noteq> None"
    then obtain de' sd' ed' where
      b: "bind_text L (req_body req ''destination'') = Some de'"
         "bind_text L (req_body req ''start_date'') = Some sd'"
         "bind_text L (req_body req ''end_date'') = Some ed'"
      and f: "\<not> falsy_js (req_body req ''destination'')" "\<not> falsy_js (req_body req ''start_date'')"
             "\<not> falsy_js (req_body req ''end_date'')"
      by auto
    then have r: "post_travel_plans L secret now req d =
        (\<lparr>status = 201, json = Obj [(''id'', Num (int (next_rowid (map t_id (travel_plans d))))),
                                     (''message'', Str ''Travel plan created successfully'')]\<rparr>,
         d\<lparr>travel_plans := travel_plans d @
              [\<lparr>t_id = next_rowid (map t_id (travel_plans d)), t_user_id = userId user,
                t_destination = de', t_start_date = sd', t_end_date = ed',
                t_description = bind_text L (req_body req ''description''),
                t_budget_range = bind_text L (req_body req ''budget_range''),
                t_interests = bind_text L (req_body req ''interests''),
                t_status = ''active'', t_created_at = now\<rparr>]\<rparr>)"
      by (simp add: post_travel_plans_def ok travel_plans_handler_def db_insert_plan_def Let_def)
    show "status (fst (post_travel_plans L secret now req d)) = 201"
      by (simp add: r)
    show "\<exists>row. travel_plans (snd (post_travel_plans L secret now req d)) = travel_plans d @ [row] \<and>
                t_user_id row = userId user"
      by (simp add: r)
  }
qed

theorem C6_witness:
  "authenticateToken toy_libs ''k'' 15 (mk_request [] []) =
     Inl (json_message 401 ''Access token required'') \<and>
   authenticateToken toy_libs ''k'' 15 (mk_request [(''authorization'', ''Bearer garbage'')] []) =
     Inl (json_message 403 ''Invalid token'') \<and>
   authenticateToken toy_libs ''k'' 15 ride_request = Inr (ride_request\<lparr>req_user := Some alice_payload\<rparr>) \<and>
   req_body ride_request ''user_id'' = Str ''999'' \<and>
   map r_user_id (carpool_rides (snd (post_carpool_rides toy_libs ''k'' 15 ride_request alice_db))) = [1] \<and>
   map t_user_id (travel_plans (snd (post_travel_plans toy_libs ''k'' 15 ride_request alice_db))) = [1]"
proof -
  have h: "header_token ride_request = Some alice_token"
    unfolding ride_request_def by (rule header_token_bearer [OF alice_token_word])
  have g: "header_token (mk_request [(''authorization'', ''Bearer garbage'')] []) = Some ''garbage''"
    using header_token_bearer [of "''garbage''" "[]"] by simp
  have v: "jwt_verify toy_libs alice_token ''k'' 15 = Inr alice_payload"
    by (simp add: toy_verify_alice)
  have b: "req_body ride_request ''origin'' = Str ''Pune''"
          "req_body ride_request ''destination'' = Str ''Mumbai''"
          "req_body ride_request ''departure_time'' = Str ''2026-01-01 09:00''"
          "req_body ride_request ''available_seats'' = Str ''3''"
          "req_body ride_request ''start_date'' = Str ''2026-01-01''"
          "req_body ride_request ''end_date'' = Str ''2026-01-05''"
          "req_body ride_request ''user_id'' = Str ''999''"
    by (simp_all add: ride_request_def mk_request_def)
  have "authenticateToken toy_libs ''k'' 15 (mk_request [] []) =
          Inl (json_message 401 ''Access token required'')"
    using C6_authorize [where req = "mk_request [] []" and L = toy_libs and secret = "''k''" and now = 15]
    by (simp add: mk_request_def)
  moreover have "authenticateToken toy_libs ''k'' 15 (mk_request [(''authorization'', ''Bearer garbage'')] []) =
          Inl (json_message 403 ''Invalid token'')"
    using C6_authorize [where req = "mk_request [(''authorization'', ''Bearer garbage'')] []"
                          and L = toy_libs and secret = "''k''" and now = 15 and tok = "''garbage''"
                          and err = JwtMalformed] g
    by (simp add: toy_verify_garbage)
  moreover note C6_authorize [where req = ride_request and L = toy_libs and secret = "''k''" and now = 15
                          and tok = alice_token and user = alice_payload and d = alice_db]
  ultimately show ?thesis
    using h v b alice_token_nonempty
    by (auto simp: alice_db_def alice_payload_def falsy_js_simps bind_text_simps)
qed

text \<open>
  C7. Whatever makes \<^verbatim>\<open>jwt.verify\<close> fail on a token (a string that is not a token, a
  signature that does not match, an expiry that has passed), the middleware sends the
  same response: 403 with the message \<^verbatim>\<open>Invalid token\<close>. Two requests whose tokens fail,
  each for any reason, are answered identically.
\<close>

theorem C7_invalid_token_uniform:
  "header_token r1 = Some t1 \<and> t1 \<noteq> [] \<and> jwt_verify L t1 secret n1 = Inl e1 \<and>
   header_token r2 = Some t2 \<and> t2 \<noteq> [] \<and> jwt_verify L t2 secret n2 = Inl e2
     \<longrightarrow> authenticateToken L secret n1 r1 = Inl (json_message 403 ''Invalid token'') \<and>
         authenticateToken L secret n2 r2 = authenticateToken L secret n1 r1"
  by (simp add: authenticate_cases)

theorem C7_witness:
  "jwt_verify toy_libs ''garbage'' ''k'' 15 = Inl JwtMalformed \<and>
   jwt_verify toy_libs forged_token ''k'' 15 = Inl InvalidSignature \<and>
   jwt_verify toy_libs alice_token ''k'' 25 = Inl TokenExpired \<and>
   authenticateToken toy_libs ''k'' 15 (mk_request [(''authorization'', ''Bearer garbage'')] []) =
     Inl (json_message 403 ''Invalid token'') \<and>
   authenticateToken toy_libs ''k'' 15 (mk_request [(''authorization'', ''Bearer '' @ forged_token)] []) =
     authenticateToken toy_libs ''k'' 15 (mk_request [(''authorization'', ''Bearer garbage'')] []) \<and>
   authenticateToken toy_libs ''k'' 25 (mk_request [(''authorization'', ''Bearer '' @ alice_token)] []) =
     authenticateToken toy_libs ''k'' 15 (mk_request [(''authorization'', ''Bearer garbage'')] [])"
proof -
  let ?g = "mk_request [(''authorization'', ''Bearer garbage'')] []"
  let ?f = "mk_request [(''authorization'', ''Bearer '' @ forged_token)] []"
  let ?a = "mk_request [(''authorization'', ''Bearer '' @ alice_token)] []"
  have g: "header_token ?g = Some ''garbage''"
    using header_token_bearer [of "''garbage''" "[]"] by simp
  have f: "header_token ?f = Some forged_token"
    by (rule header_token_bearer [OF forged_token_word])
  have a: "header_token ?a = Some alice_token"
    by (rule header_token_bearer [OF alice_token_word])
  have v: "jwt_verify toy_libs ''garbage'' ''k'' 15 = Inl JwtMalformed"
          "jwt_verify toy_libs forged_token ''k'' 15 = Inl InvalidSignature"
          "jwt_verify toy_libs alice_token ''k'' 25 = Inl TokenExpired"
    by (simp_all add: toy_verify_garbage toy_verify_forged toy_verify_alice)
  from C7_invalid_token_uniform [where ?r1.0 = ?g and ?t1.0 = "''garbage''" and L = toy_libs
         and secret = "''k''" and ?n1.0 = 15 and ?e1.0 = JwtMalformed
         and ?r2.0 = ?f and ?t2.0 = forged_token and ?n2.0 = 15 and ?e2.0 = InvalidSignature]
       C7_invalid_token_uniform [where ?r1.0 = ?g and ?t1.0 = "''garbage''" and L = toy_libs
         and secret = "''k''" and ?n1.0 = 15 and ?e1.0 = JwtMalformed
         and ?r2.0 = ?a and ?t2.0 = alice_token and ?n2.0 = 25 and ?e2.0 = TokenExpired]
  show ?thesis
    using g f a v forged_token_nonempty alice_token_nonempty by simp
qed

text \<open>
  C8. With a library whose decoder inverts its encoder, the token that the handlers
  issue for a user id and an email string (\<^verbatim>\<open>jwt.sign\<close> with \<^verbatim>\<open>expiresIn: '24h'\<close>) carries
  \<^verbatim>\<open>exp = iat + 86400\<close>; verified at the moment of issue, and at any moment before its
  expiry, it yields the user id and the email it was issued for, and from its expiry on
  it is rejected. Any token whose expiry is not in the future fails verification, and
  the middleware answers it 403 \<^verbatim>\<open>Invalid token\<close>.
\<close>

theorem C8_issue_verify:
  "(jwt_roundtrip L
      \<longrightarrow> jwt_decode L (jwt_sign L (uid, Str e) secret expiresIn_24h now) =
            Some (\<lparr>userId = uid, email = Str e, iat = now, exp = Some (now + 86400)\<rparr>,
                  hmac L secret \<lparr>userId = uid, email = Str e, iat = now, exp = Some (now + 86400)\<rparr>) \<and>
          jwt_verify L (jwt_sign L (uid, Str e) secret expiresIn_24h now) secret now =
            Inr \<lparr>userId = uid, email = Str e, iat = now, exp = Some (now + 86400)\<rparr> \<and>
          (\<forall>t. jwt_verify L (jwt_sign L (uid, Str e) secret expiresIn_24h now) secret t =
                 (if t < now + 86400
                  then Inr \<lparr>userId = uid, email = Str e, iat = now, exp = Some (now + 86400)\<rparr>
                  else Inl TokenExpired))) \<and>
   (jwt_decode L tok = Some (p, sg) \<and> exp p = Some x \<and> x \<le> t'
      \<longrightarrow> (\<exists>err. jwt_verify L tok secret' t' = Inl err) \<and>
          (header_token req = Some tok \<and> tok \<noteq> []
             \<longrightarrow> authenticateToken L secret' t' req = Inl (json_message 403 ''Invalid token'')))"
  by (auto simp: jwt_roundtrip_def jwt_sign_def jwt_verify_def expiresIn_24h_def Let_def authenticate_cases)

theorem C8_witness:
  "jwt_roundtrip toy_libs \<and>
   jwt_verify toy_libs (jwt_sign toy_libs (1, Str ''alice@example.com'') ''k'' expiresIn_24h 10) ''k'' 10 =
     Inr \<lparr>userId = 1, email = Str ''alice@example.com'', iat = 10, exp = Some 86410\<rparr> \<and>
   jwt_decode toy_libs alice_token = Some (alice_payload, ''k/alice@example.com'') \<and>
   exp alice_payload = Some 20 \<and>
   jwt_verify toy_libs alice_token ''k'' 25 = Inl TokenExpired \<and>
   authenticateToken toy_libs ''k'' 25 (mk_request [(''authorization'', ''Bearer '' @ alice_token)] []) =
     Inl (json_message 403 ''Invalid token'')"
proof -
  let ?a = "mk_request [(''authorization'', ''Bearer '' @ alice_token)] []"
  have a: "header_token ?a = Some alice_token"
    by (rule header_token_bearer [OF alice_token_word])
  have d: "jwt_decode toy_libs alice_token = Some (alice_payload, ''k/alice@example.com'')"
    by (simp add: toy_libs_def alice_token_def toy_decode_encode [OF alice_payload_email])
  have x: "exp alice_payload = Some 20"
    by (simp add: alice_payload_def)
  from C8_issue_verify [where L = toy_libs and uid = 1 and e = "''alice@example.com''" and secret = "''k''"
         and now = 10 and tok = alice_token and p = alice_payload and sg = "''k/alice@example.com''"
         and x = 20 and t' = 25 and secret' = "''k''" and req = ?a]
  show ?thesis
    using toy_roundtrip a d x alice_token_nonempty by (simp add: toy_verify_alice)
qed

text \<open>
  C9. Start-up does not fail on account of the signing secret. The process refuses to
  start exactly when \<^verbatim>\<open>app.listen\<close> fails on the configured port, whatever
  \<^verbatim>\<open>JWT_SECRET\<close> is set to, set or not; when \<^verbatim>\<open>app.listen\<close> succeeds and \<^verbatim>\<open>JWT_SECRET\<close> is
  unset or empty the server listens with the secret \<^verbatim>\<open>your-secret-key-here\<close>, and
  with the configured value otherwise.
\<close>

theorem C9_default_secret:
  "(start_server listen env = Refused) = (\<not> listen (PORT env)) \<and>
   (listen (PORT env) \<longrightarrow> start_server listen env = Listening (PORT env) (JWT_SECRET env)) \<and>
   (start_server listen (env(''JWT_SECRET'' := v)) = Refused) = (start_server listen env = Refused) \<and>
   (env ''JWT_SECRET'' = None \<or> env ''JWT_SECRET'' = Some []
      \<longrightarrow> JWT_SECRET env = ''your-secret-key-here'') \<and>
   (env ''JWT_SECRET'' = Some s \<and> s \<noteq> [] \<longrightarrow> JWT_SECRET env = s)"
  by (auto simp: start_server_def PORT_def JWT_SECRET_def or_default_def Let_def)

theorem C9_witness:
  "start_server decimal_listen [''PORT'' \<mapsto> ''8080''] = Listening ''8080'' ''your-secret-key-here'' \<and>
   start_server decimal_listen [''JWT_SECRET'' \<mapsto> ''s3cret''] = Listening ''5000'' ''s3cret'' \<and>
   start_server decimal_listen [''PORT'' \<mapsto> ''99999'', ''JWT_SECRET'' \<mapsto> ''s3cret''] = Refused \<and>
   start_server decimal_listen [''PORT'' \<mapsto> ''99999''] = Refused"
proof -
  have p: "PORT [''PORT'' \<mapsto> ''8080''] = ''8080''" "PORT [''JWT_SECRET'' \<mapsto> ''s3cret''] = ''5000''"
          "PORT [''PORT'' \<mapsto> ''99999'', ''JWT_SECRET'' \<mapsto> ''s3cret''] = ''99999''"
          "PORT [''PORT'' \<mapsto> ''99999''] = ''99999''"
    by (simp_all add: PORT_def or_default_def)
  from C9_default_secret [of decimal_listen "[''PORT'' \<mapsto> ''8080'']" None "''x''"]
       C9_default_secret [of decimal_listen "[''JWT_SECRET'' \<mapsto> ''s3cret'']" None "''s3cret''"]
       C9_default_secret [of decimal_listen "[''PORT'' \<mapsto> ''99999'', ''JWT_SECRET'' \<mapsto> ''s3cret'']"
                             None "''s3cret''"]
       C9_default_secret [of decimal_listen "[''PORT'' \<mapsto> ''99999'']" None "''x''"]
  show ?thesis
    using decimal_listen_default decimal_listen_8080 decimal_listen_99999
    by (simp add: p)
qed

text \<open>
  With an empty environment, on a system where port 5000 is free, the server does not
  refuse to start: it listens with the default secret.
\<close>

theorem C9_counterexample:
  "Map.empty ''JWT_SECRET'' = (None :: string option) \<and>
   start_server decimal_listen Map.empty = Listening ''5000'' ''your-secret-key-here'' \<and>
   start_server decimal_listen Map.empty \<noteq> Refused"
  using decimal_listen_default
  by (simp add: start_server_def PORT_def JWT_SECRET_def or_default_def)

text \<open>
  C10. The middleware does not look at the authorization scheme. For a header
  \<open>w t\<close> whose first word \<open>w\<close> has no space, the token is \<open>t\<close> up to its first space,
  whatever \<open>w\<close> is; the headers \<^verbatim>\<open>Basic t\<close> and \<^verbatim>\<open>Bearer t\<close> give the same token and
  the same outcome (the same response, or the same identity attached); and a header
  with no space in it is answered 401 \<^verbatim>\<open>Access token required\<close>, not 403.
\<close>

theorem C10_scheme_unchecked:
  "(req_headers req ''authorization'' = Some (w @ '' '' @ t) \<and> CHR '' '' \<notin> set w
      \<longrightarrow> header_token req = Some (takeWhile (\<lambda>c. c \<noteq> CHR '' '') t)) \<and>
   (req_headers r1 ''authorization'' = Some (''Basic '' @ t) \<and>
    req_headers r2 ''authorization'' = Some (''Bearer '' @ t)
      \<longrightarrow> header_token r1 = header_token r2 \<and>
          map_sum (\<lambda>res. res) req_user (authenticateToken L secret now r1) =
          map_sum (\<lambda>res. res) req_user (authenticateToken L secret now r2)) \<and>
   (req_headers req ''authorization'' = Some h \<and> CHR '' '' \<notin> set h
      \<longrightarrow> authenticateToken L secret now req = Inl (json_message 401 ''Access token required''))"
proof (intro conjI impI)
  assume "req_headers req ''authorization'' = Some (w @ '' '' @ t) \<and> CHR '' '' \<notin> set w"
  then show "header_token req = Some (takeWhile (\<lambda>c. c \<noteq> CHR '' '') t)"
    using header_token_scheme [of req w t] by simp
next
  assume a: "req_headers r1 ''authorization'' = Some (''Basic '' @ t) \<and>
             req_headers r2 ''authorization'' = Some (''Bearer '' @ t)"
  have "header_token r1 = Some (takeWhile (\<lambda>c. c \<noteq> CHR '' '') t)"
    using a header_token_scheme [of r1 "''Basic''" t] by simp
  moreover have "header_token r2 = Some (takeWhile (\<lambda>c. c \<noteq> CHR '' '') t)"
    using a header_token_scheme [of r2 "''Bearer''" t] by simp
  ultimately show eq: "header_token r1 = header_token r2" by simp
  then show "map_sum (\<lambda>res. res) req_user (authenticateToken L secret now r1) =
             map_sum (\<lambda>res. res) req_user (authenticateToken L secret now r2)"
    by (simp add: authenticate_cases split: option.splits sum.splits)
next
  assume "req_headers req ''authorization'' = Some h \<and> CHR '' '' \<notin> set h"
  then have "falsy (header_token req)"
    using header_token_no_space [of req h] by simp
  then show "authenticateToken L secret now req = Inl (json_message 401 ''Access token required'')"
    by (simp add: authenticateToken_def)
qed

theorem C10_witness:
  "header_token (mk_request [(''authorization'', ''Basic '' @ alice_token)] []) = Some alice_token \<and>
   map_sum (\<lambda>res. res) req_user
     (authenticateToken toy_libs ''k'' 15 (mk_request [(''authorization'', ''Basic '' @ alice_token)] [])) =
   Inr (Some alice_payload) \<and>
   map_sum (\<lambda>res. res) req_user
     (authenticateToken toy_libs ''k'' 15 (mk_request [(''authorization'', ''Bearer '' @ alice_token)] [])) =
   Inr (Some alice_payload) \<and>
   authenticateToken toy_libs ''k'' 15 (mk_request [(''authorization'', ''Bearer'')] []) =
     Inl (json_message 401 ''Access token required'')"
proof -
  let ?r1 = "mk_request [(''authorization'', ''Basic '' @ alice_token)] []"
  let ?r2 = "mk_request [(''authorization'', ''Bearer '' @ alice_token)] []"
  let ?r3 = "mk_request [(''authorization'', ''Bearer'')] []"
  have t1: "header_token ?r1 = Some alice_token"
    using C10_scheme_unchecked [where req = ?r1 and w = "''Basic''" and t = alice_token and ?r1.0 = ?r1 and ?r2.0 = ?r2 and L = toy_libs and secret = "''k''" and now = 15 and h = "''Bearer''"]
    by (simp add: mk_request_def alice_token_word)
  have eq: "map_sum (\<lambda>res. res) req_user (authenticateToken toy_libs ''k'' 15 ?r1) =
            map_sum (\<lambda>res. res) req_user (authenticateToken toy_libs ''k'' 15 ?r2)"
    using C10_scheme_unchecked [where req = ?r1 and w = "''Basic''" and t = alice_token and ?r1.0 = ?r1 and ?r2.0 = ?r2 and L = toy_libs and secret = "''k''" and now = 15 and h = "''Bearer''"]
    by (simp add: mk_request_def)
  have a1: "map_sum (\<lambda>res. res) req_user (authenticateToken toy_libs ''k'' 15 ?r1) = Inr (Some alice_payload)"
    using t1 alice_token_nonempty
    by (simp add: authenticate_cases) (simp add: alice_token_def toy_verify alice_payload_def)
  have a3: "authenticateToken toy_libs ''k'' 15 ?r3 = Inl (json_message 401 ''Access token required'')"
    using C10_scheme_unchecked [where req = ?r3 and w = "''Basic''" and t = alice_token and ?r1.0 = ?r1 and ?r2.0 = ?r2 and L = toy_libs and secret = "''k''" and now = 15 and h = "''Bearer''"]
    by (simp add: mk_request_def)
  from t1 eq a1 a3 show ?thesis by simp
qed

end
